theory Spec2Isabelle
  imports Complex_Main
begin

section \<open>JavaScript numbers and the built-ins the script calls\<close>

text \<open>
  A JavaScript Number is NaN, one of the two infinities, or a finite double. A finite
  double is represented by the rational it denotes (the sign of zero is not kept).
  Operations whose exact result need not be a double round it: the rounding function
  is the field \<open>rnd\<close> of the platform, so every theorem below holds for any rounding.
  \<open>num_to_string\<close> is Number::toString, which prints the shortest decimal that reads back
  as the same double.
\<close>

datatype jsnum = NaN | PInf | NInf | Fin rat

record platform =
  rnd :: "rat \<Rightarrow> jsnum"
  num_to_string :: "jsnum \<Rightarrow> string"

text \<open>Unary minus: exact on every Number.\<close>

definition js_neg :: "jsnum \<Rightarrow> jsnum" where
  "js_neg x = (case x of NaN \<Rightarrow> NaN | PInf \<Rightarrow> NInf | NInf \<Rightarrow> PInf | Fin r \<Rightarrow> Fin (- r))"

definition js_sign :: "jsnum \<Rightarrow> int option" where
  "js_sign x = (case x of NaN \<Rightarrow> None | PInf \<Rightarrow> Some 1 | NInf \<Rightarrow> Some (- 1)
                | Fin r \<Rightarrow> Some (if 0 < r then 1 else if r < 0 then - 1 else 0))"

text \<open>The operator \<open>*\<close>: the rounded product of two finite values; otherwise NaN when an
  operand is NaN or the product is infinity times zero, and else the infinity with the
  product of the signs.\<close>

definition js_times :: "platform \<Rightarrow> jsnum \<Rightarrow> jsnum \<Rightarrow> jsnum" where
  "js_times P a b =
     (case (a, b) of
        (Fin x, Fin y) \<Rightarrow> rnd P (x * y)
      | _ \<Rightarrow> (case (js_sign a, js_sign b) of
                (Some s, Some t) \<Rightarrow>
                  (if s * t = 0 then NaN else if 0 < s * t then PInf else NInf)
              | _ \<Rightarrow> NaN))"

text \<open>The operator \<open>/\<close> with the literal 2 as divisor, the only division of the script.\<close>

definition js_half :: "platform \<Rightarrow> jsnum \<Rightarrow> jsnum" where
  "js_half P a = (case a of Fin x \<Rightarrow> rnd P (x / 2) | _ \<Rightarrow> a)"

subsection \<open>Decimal digits\<close>

definition is_digit :: "char \<Rightarrow> bool" where
  "is_digit c = (c \<in> set ''0123456789'')"

definition digit_table :: "(char \<times> nat) list" where
  "digit_table = zip ''0123456789'' [0, 1, 2, 3, 4, 5, 6, 7, 8, 9]"

definition digit_val :: "char \<Rightarrow> nat" where
  "digit_val c = (case map_of digit_table c of None \<Rightarrow> 0 | Some d \<Rightarrow> d)"

definition digits_val :: "string \<Rightarrow> nat" where
  "digits_val ds = foldl (\<lambda>n c. 10 * n + digit_val c) 0 ds"

definition digit_char :: "nat \<Rightarrow> char" where
  "digit_char d = (if d < 10 then ''0123456789'' ! d else CHR ''0'')"

fun dec :: "nat \<Rightarrow> string" where
  "dec n = (if n < 10 then [digit_char n] else dec (n div 10) @ [digit_char (n mod 10)])"

subsection \<open>parseFloat on strings\<close>

text \<open>
  ECMAScript \<open>parseFloat\<close>: leading white space is dropped, then the longest prefix that
  is a StrDecimalLiteral is read (an optional sign, then \<open>Infinity\<close> or decimal digits
  with an optional fraction and an optional exponent); the result is NaN when there
  is no such prefix. Characters are the code units below 256.
\<close>

definition is_ws :: "char \<Rightarrow> bool" where
  "is_ws c = (of_char c \<in> {9, 10, 11, 12, 13, 32, 160 :: nat})"

definition starts_with :: "string \<Rightarrow> string \<Rightarrow> bool" where
  "starts_with p s = (take (length p) s = p)"

text \<open>The exponent part after the mantissa: \<open>e\<close> or \<open>E\<close>, an optional sign and at least
  one digit; anything else is not part of the literal and counts as exponent 0.\<close>

definition exponent_part :: "string \<Rightarrow> int" where
  "exponent_part s =
     (case s of
        [] \<Rightarrow> 0
      | c # r \<Rightarrow>
          (if c = CHR ''e'' \<or> c = CHR ''E'' then
             (case r of
                [] \<Rightarrow> 0
              | d # r' \<Rightarrow>
                  (if d = CHR ''+'' then
                     (if takeWhile is_digit r' = [] then 0
                      else int (digits_val (takeWhile is_digit r')))
                   else if d = CHR ''-'' then
                     (if takeWhile is_digit r' = [] then 0
                      else - int (digits_val (takeWhile is_digit r')))
                   else if takeWhile is_digit r = [] then 0
                   else int (digits_val (takeWhile is_digit r))))
           else 0))"

definition scale10 :: "rat \<Rightarrow> int \<Rightarrow> rat" where
  "scale10 m e = (if 0 \<le> e then m * 10 ^ nat e else m / 10 ^ nat (- e))"

text \<open>The mathematical value of the longest unsigned finite literal at the start of the
  string, or None when there is none.\<close>

definition unsigned_value :: "string \<Rightarrow> rat option" where
  "unsigned_value s =
     (let ip = takeWhile is_digit s; r1 = dropWhile is_digit s in
      if starts_with ''.'' r1 then
        (let fp = takeWhile is_digit (tl r1); r2 = dropWhile is_digit (tl r1) in
         if ip = [] \<and> fp = [] then None
         else Some (scale10 (of_nat (digits_val (ip @ fp)) / 10 ^ length fp)
                      (exponent_part r2)))
      else if ip = [] then None
      else Some (scale10 (of_nat (digits_val ip)) (exponent_part r1)))"

datatype sign = Plus | Minus

definition parse_unsigned :: "platform \<Rightarrow> sign \<Rightarrow> string \<Rightarrow> jsnum" where
  "parse_unsigned P sg s =
     (if starts_with ''Infinity'' s then (case sg of Plus \<Rightarrow> PInf | Minus \<Rightarrow> NInf)
      else (case unsigned_value s of
              None \<Rightarrow> NaN
            | Some v \<Rightarrow> rnd P (case sg of Plus \<Rightarrow> v | Minus \<Rightarrow> - v)))"

definition parseFloat_string :: "platform \<Rightarrow> string \<Rightarrow> jsnum" where
  "parseFloat_string P s =
     (case dropWhile is_ws s of
        [] \<Rightarrow> NaN
      | c # r \<Rightarrow>
          (if c = CHR ''+'' then parse_unsigned P Plus r
           else if c = CHR ''-'' then parse_unsigned P Minus r
           else parse_unsigned P Plus (c # r)))"

subsection \<open>toFixed(3)\<close>

text \<open>
  Number.prototype.toFixed with three fraction digits: a non-finite value gives its name;
  a finite one gives the sign, then (from 10^21 on) what Number::toString gives for the
  magnitude, or (below 10^21) the integer n nearest to 1000 times
  the magnitude, the larger one on a tie, written with at least four digits and a point
  before the last three.
\<close>

definition pad4 :: "string \<Rightarrow> string" where
  "pad4 m = replicate (4 - length m) (CHR ''0'') @ m"

definition toFixed3 :: "platform \<Rightarrow> jsnum \<Rightarrow> string" where
  "toFixed3 P x =
     (case x of
        NaN \<Rightarrow> ''NaN''
      | PInf \<Rightarrow> ''Infinity''
      | NInf \<Rightarrow> ''-Infinity''
      | Fin r \<Rightarrow>
          (let s = (if r < 0 then ''-'' else ''''); a = \<bar>r\<bar> in
           if 10 ^ 21 \<le> a then s @ num_to_string P (Fin a)
           else (let m = pad4 (dec (nat \<lfloor>a * 1000 + 1 / 2\<rfloor>)) in
                 s @ take (length m - 3) m @ ''.'' @ drop (length m - 3) m)))"

section \<open>JSON values and their conversions\<close>

text \<open>
  What \<open>JSON.parse\<close> returns. Reading a property that is absent gives \<open>undefined\<close>, which is
  \<open>None\<close> below. No JSON value is callable, and the only exception the conversions can
  raise is a TypeError.
\<close>

datatype json = JNull | JBool bool | JNum jsnum | JStr string
  | JArr "json list" | JObj "(string \<times> json) list"

datatype error = TypeError

text \<open>The own property of an object; of a repeated key the last one counts.\<close>

definition own_property :: "(string \<times> json) list \<Rightarrow> string \<Rightarrow> json option" where
  "own_property kvs k = map_of (rev kvs) k"

text \<open>
  \<open>data.k\<close> for the names the script reads (\<open>lon\<close>, \<open>lat\<close>, \<open>az\<close>, \<open>alt\<close>, \<open>time\<close>, \<open>log\<close>,
  \<open>interval\<close>), none of which is on a prototype: a TypeError on \<open>undefined\<close> and \<open>null\<close>,
  the own property on an object, \<open>undefined\<close> on everything else.
\<close>

definition get_prop :: "json option \<Rightarrow> string \<Rightarrow> error + json option" where
  "get_prop data k =
     (case data of
        None \<Rightarrow> Inl TypeError
      | Some JNull \<Rightarrow> Inl TypeError
      | Some (JObj kvs) \<Rightarrow> Inr (own_property kvs k)
      | Some _ \<Rightarrow> Inr None)"

text \<open>
  ToString. An array is joined with commas, \<open>null\<close> elements giving the empty string. An
  object gives \<open>[object Object]\<close>, unless it has an own property \<open>toString\<close>: that shadows
  the inherited method, is not callable, and \<open>valueOf\<close> returns the object itself, so the
  conversion raises a TypeError. The same holds for the conversion to a primitive that
  \<open>+\<close> and \<open>*\<close> make first.
\<close>

fun to_string :: "platform \<Rightarrow> json \<Rightarrow> error + string"
  and array_join :: "platform \<Rightarrow> json list \<Rightarrow> error + string" where
  "to_string P JNull = Inr ''null''"
| "to_string P (JBool b) = Inr (if b then ''true'' else ''false'')"
| "to_string P (JNum x) = Inr (num_to_string P x)"
| "to_string P (JStr s) = Inr s"
| "to_string P (JArr vs) = array_join P vs"
| "to_string P (JObj kvs) =
     (if ''toString'' \<in> set (map fst kvs) then Inl TypeError else Inr ''[object Object]'')"
| "array_join P [] = Inr ''''"
| "array_join P (v # vs) =
     (case (if v = JNull then Inr '''' else to_string P v) of
        Inl e \<Rightarrow> Inl e
      | Inr s \<Rightarrow>
          (case array_join P vs of
             Inl e \<Rightarrow> Inl e
           | Inr t \<Rightarrow> Inr (if vs = [] then s else s @ '','' @ t)))"

definition js_string :: "platform \<Rightarrow> json option \<Rightarrow> error + string" where
  "js_string P v = (case v of None \<Rightarrow> Inr ''undefined'' | Some j \<Rightarrow> to_string P j)"

text \<open>\<open>parseFloat\<close> of any value: the value is converted to a string, which is then read;
  a Number printed and read back is the same Number.\<close>

definition parseFloat_js :: "platform \<Rightarrow> json option \<Rightarrow> error + jsnum" where
  "parseFloat_js P v =
     (case v of
        Some (JNum x) \<Rightarrow> Inr x
      | _ \<Rightarrow> (case js_string P v of
                Inl e \<Rightarrow> Inl e
              | Inr s \<Rightarrow> Inr (parseFloat_string P s)))"

subsection \<open>ToNumber\<close>

text \<open>
  StringToNumber: white space is dropped at both ends; the empty string is 0; the rest
  must be, as a whole, a StrDecimalLiteral or an unsigned integer in base 16, 8 or 2 with
  its prefix; anything else is NaN.
\<close>

definition exponent_rest :: "string \<Rightarrow> string" where
  "exponent_rest s =
     (case s of
        [] \<Rightarrow> []
      | c # r \<Rightarrow>
          (if c = CHR ''e'' \<or> c = CHR ''E'' then
             (case r of
                [] \<Rightarrow> s
              | d # r' \<Rightarrow>
                  (if d = CHR ''+'' \<or> d = CHR ''-'' then
                     (if takeWhile is_digit r' = [] then s else dropWhile is_digit r')
                   else if takeWhile is_digit r = [] then s
                   else dropWhile is_digit r))
           else s))"

text \<open>What follows the longest unsigned decimal literal at the start of the string.\<close>

definition unsigned_rest :: "string \<Rightarrow> string option" where
  "unsigned_rest s =
     (if starts_with ''Infinity'' s then Some (drop (length ''Infinity'') s)
      else
        (let ip = takeWhile is_digit s; r1 = dropWhile is_digit s in
         if starts_with ''.'' r1 then
           (let fp = takeWhile is_digit (tl r1); r2 = dropWhile is_digit (tl r1) in
            if ip = [] \<and> fp = [] then None else Some (exponent_rest r2))
         else if ip = [] then None
         else Some (exponent_rest r1)))"

definition is_decimal_literal :: "string \<Rightarrow> bool" where
  "is_decimal_literal t =
     (case t of
        [] \<Rightarrow> False
      | c # r \<Rightarrow>
          (if c = CHR ''+'' \<or> c = CHR ''-'' then unsigned_rest r = Some []
           else unsigned_rest t = Some []))"

definition radix_table :: "(char \<times> nat) list" where
  "radix_table =
     zip ''0123456789abcdefABCDEF''
       [0, 1, 2, 3, 4, 5, 6, 7, 8, 9, 10, 11, 12, 13, 14, 15, 10, 11, 12, 13, 14, 15]"

definition radix_digit :: "nat \<Rightarrow> char \<Rightarrow> nat option" where
  "radix_digit b c =
     (case map_of radix_table c of
        None \<Rightarrow> None
      | Some d \<Rightarrow> (if d < b then Some d else None))"

definition radix_of :: "char \<Rightarrow> nat option" where
  "radix_of c =
     (if c = CHR ''x'' \<or> c = CHR ''X'' then Some 16
      else if c = CHR ''o'' \<or> c = CHR ''O'' then Some 8
      else if c = CHR ''b'' \<or> c = CHR ''B'' then Some 2
      else None)"

definition nondecimal_value :: "string \<Rightarrow> nat option" where
  "nondecimal_value t =
     (case t of
        c0 # c1 # ds \<Rightarrow>
          (case radix_of c1 of
             None \<Rightarrow> None
           | Some b \<Rightarrow>
               (if c0 = CHR ''0'' \<and> ds \<noteq> [] \<and> list_all (\<lambda>c. radix_digit b c \<noteq> None) ds
                then Some (foldl (\<lambda>n c. b * n + the (radix_digit b c)) 0 ds)
                else None))
      | _ \<Rightarrow> None)"

definition string_to_number :: "platform \<Rightarrow> string \<Rightarrow> jsnum" where
  "string_to_number P s =
     (let t = rev (dropWhile is_ws (rev (dropWhile is_ws s))) in
      if t = [] then Fin 0
      else if is_decimal_literal t then parseFloat_string P t
      else (case nondecimal_value t of
              None \<Rightarrow> NaN
            | Some n \<Rightarrow> rnd P (of_nat n)))"

text \<open>ToNumber: arrays and objects are converted to a string first.\<close>

definition to_number :: "platform \<Rightarrow> json option \<Rightarrow> error + jsnum" where
  "to_number P v =
     (case v of
        None \<Rightarrow> Inr NaN
      | Some JNull \<Rightarrow> Inr (Fin 0)
      | Some (JBool b) \<Rightarrow> Inr (Fin (if b then 1 else 0))
      | Some (JNum x) \<Rightarrow> Inr x
      | Some (JStr s) \<Rightarrow> Inr (string_to_number P s)
      | Some j \<Rightarrow> (case to_string P j of
                     Inl e \<Rightarrow> Inl e
                   | Inr s \<Rightarrow> Inr (string_to_number P s)))"

section \<open>The page, the drawing and the view state\<close>

type_synonym point = "jsnum \<times> jsnum"

text \<open>The d3 orthographic projection object: the arguments last given to its setters.
  A fresh projection has rotation [0, 0, 0].\<close>

record proj =
  p_scale :: jsnum
  p_translate :: point
  p_clipAngle :: jsnum
  p_precision :: jsnum
  p_rotate :: "jsnum list"

text \<open>What is bound to an element as its datum. \<open>Land\<close> and \<open>Boundary\<close> stand for the
  features topojson extracts from the loaded world file.\<close>

datatype geometry = Sphere | Graticule | Land | Boundary
  | LineString "point list" | Position point

text \<open>Attribute values. \<open>Path p g\<close> is the path data that \<open>$path\<close> computes for the
  datum g under the projection p, and \<open>ProjX p c\<close>, \<open>ProjY p c\<close> are the two components
  of \<open>$projection(c)\<close>: d3 computes them, the script only stores them.\<close>

datatype attrval = Str string | Num jsnum | Path proj geometry
  | ProjX proj point | ProjY proj point

record element =
  tag :: string
  attrs :: "(string \<times> attrval) list"
  datum :: "geometry option"

definition new_element :: "string \<Rightarrow> element" where
  "new_element t = \<lparr>tag = t, attrs = [], datum = None\<rparr>"

fun put :: "string \<Rightarrow> attrval \<Rightarrow> (string \<times> attrval) list \<Rightarrow> (string \<times> attrval) list" where
  "put k v [] = [(k, v)]"
| "put k v ((k', v') # kvs) = (if k' = k then (k, v) # kvs else (k', v') # put k v kvs)"

definition setAttribute :: "string \<Rightarrow> attrval \<Rightarrow> element \<Rightarrow> element" where
  "setAttribute k v e = e\<lparr>attrs := put k v (attrs e)\<rparr>"

definition removeAttribute :: "string \<Rightarrow> element \<Rightarrow> element" where
  "removeAttribute k e = e\<lparr>attrs := filter (\<lambda>kv. fst kv \<noteq> k) (attrs e)\<rparr>"

text \<open>\<open>.attr("d", $path)\<close> on one element: the path generator is called on the element's
  datum; without a datum it returns nothing and d3 removes the attribute.\<close>

definition attr_d :: "proj \<Rightarrow> element \<Rightarrow> element" where
  "attr_d p e = (case datum e of
                   None \<Rightarrow> removeAttribute ''d'' e
                 | Some g \<Rightarrow> setAttribute ''d'' (Path p g) e)"

text \<open>Selectors: a comma-separated list of class, id and tag selectors. The elements of
  this page carry one class each.\<close>

datatype selector = Class string | Id string | Tag string

definition matches1 :: "element \<Rightarrow> selector \<Rightarrow> bool" where
  "matches1 e s = (case s of
                     Class c \<Rightarrow> map_of (attrs e) ''class'' = Some (Str c)
                   | Id i \<Rightarrow> map_of (attrs e) ''id'' = Some (Str i)
                   | Tag t \<Rightarrow> tag e = t)"

definition matches :: "selector list \<Rightarrow> element \<Rightarrow> bool" where
  "matches sels e = list_ex (matches1 e) sels"

text \<open>\<open>selection.insert(name, before)\<close>: the new element goes in front of the first
  element that matches, at the end when none does.\<close>

definition insert_before :: "selector list \<Rightarrow> element \<Rightarrow> element list \<Rightarrow> element list" where
  "insert_before sels e es =
     takeWhile (\<lambda>x. \<not> matches sels x) es @ e # dropWhile (\<lambda>x. \<not> matches sels x) es"

text \<open>
  The globals of the script. \<open>svg\<close> lists the elements below the svg node in document
  order; \<open>log_panel\<close> lists the fragments of the log container, topmost first;
  \<open>timeouts\<close> and \<open>requests\<close> record, in order, the delays (in milliseconds) given to
  \<open>setTimeout(getStatus, _)\<close> and the URLs requested.
\<close>

record view =
  width :: jsnum
  height :: jsnum
  svg_attrs :: "(string \<times> attrval) list"
  svg :: "element list"
  ui_attrs :: "(string \<times> attrval) list"
  lon :: jsnum
  lat :: jsnum
  az :: jsnum
  alt :: jsnum
  time :: "json option"
  log_panel :: "string list"
  stop_flag :: bool
  trajectory :: "point list"
  lonlabel :: string
  latlabel :: string
  azilabel :: string
  altlabel :: string
  timelabel :: string
  projection :: proj
  timeouts :: "jsnum list"
  requests :: "string list"
  href :: string

text \<open>What the script finds when the document is ready: the window's dimensions and
  address, and the content the page's own markup gives the elements it selects.\<close>

record page =
  innerWidth :: int
  outerHeight :: int
  location_href :: string
  ui_attrs0 :: "(string \<times> attrval) list"
  label_texts0 :: "string \<times> string \<times> string \<times> string \<times> string"
  log_panel0 :: "string list"

section \<open>The script\<close>

definition setVariables :: "platform \<Rightarrow> page \<Rightarrow> view" where
  "setVariables P pg =
     (let w = (if outerHeight pg < innerWidth pg
               then js_times P (rnd P (45 / 100)) (Fin (of_int (innerWidth pg)))
               else js_times P (rnd P (9 / 10)) (Fin (of_int (innerWidth pg))));
          h = w
      in \<lparr>width = w, height = h,
          svg_attrs = put ''height'' (Num h) (put ''width'' (Num w) []),
          svg = [],
          ui_attrs = (if outerHeight pg > innerWidth pg
                      then put ''width'' (Str ''100%'') (ui_attrs0 pg) else ui_attrs0 pg),
          lon = Fin 0, lat = Fin 0, az = Fin 0, alt = Fin 0, time = Some (JStr []),
          log_panel = log_panel0 pg,
          stop_flag = False,
          trajectory = [],
          lonlabel = fst (label_texts0 pg),
          latlabel = fst (snd (label_texts0 pg)),
          azilabel = fst (snd (snd (label_texts0 pg))),
          altlabel = fst (snd (snd (snd (label_texts0 pg)))),
          timelabel = snd (snd (snd (snd (label_texts0 pg)))),
          projection = \<lparr>p_scale = js_times P w (rnd P (459 / 1000)),
                         p_translate = (js_half P w, js_half P h),
                         p_clipAngle = Fin 90, p_precision = Fin 1,
                         p_rotate = [Fin 0, Fin 0, Fin 0]\<rparr>,
          timeouts = [], requests = [],
          href = location_href pg\<rparr>)"

text \<open>The four controls. A click sends the request; the success callbacks of the two
  computing commands are the functions named \<open>_success\<close>. The tracking commands have no
  callback.\<close>

definition startcomputing_click :: "view \<Rightarrow> view" where
  "startcomputing_click st = st\<lparr>requests := requests st @ [href st @ ''?startcomputing'']\<rparr>"

definition startcomputing_success :: "view \<Rightarrow> view" where
  "startcomputing_success st = st\<lparr>stop_flag := False\<rparr>"

definition stopcomputing_click :: "view \<Rightarrow> view" where
  "stopcomputing_click st =
     (let st1 = st\<lparr>trajectory := []\<rparr>
      in st1\<lparr>requests := requests st1 @ [href st1 @ ''?stopcomputing'']\<rparr>)"

definition stopcomputing_success :: "view \<Rightarrow> view" where
  "stopcomputing_success st = st\<lparr>stop_flag := True\<rparr>"

definition starttracking_click :: "view \<Rightarrow> view" where
  "starttracking_click st = st\<lparr>requests := requests st @ [href st @ ''?starttracking'']\<rparr>"

definition stoptracking_click :: "view \<Rightarrow> view" where
  "stoptracking_click st = st\<lparr>requests := requests st @ [href st @ ''?stoptracking'']\<rparr>"

text \<open>\<open>drawMap\<close>, the part that runs at once: the sphere inside \<open>defs\<close>, its two uses and
  the graticule. (The last line of the function styles the frame element of the window,
  which is not part of this state.)\<close>

definition drawMap :: "view \<Rightarrow> view" where
  "drawMap st =
     (let p = projection st;
          st1 = st\<lparr>svg := svg st @ [new_element ''defs'',
                   attr_d p (setAttribute ''id'' (Str ''sphere'')
                     ((new_element ''path'')\<lparr>datum := Some Sphere\<rparr>))]\<rparr>;
          st2 = st1\<lparr>svg := svg st1 @
                   [setAttribute ''xlink:href'' (Str ''#sphere'')
                      (setAttribute ''class'' (Str ''stroke'') (new_element ''use''))]\<rparr>;
          st3 = st2\<lparr>svg := svg st2 @
                   [setAttribute ''xlink:href'' (Str ''#sphere'')
                      (setAttribute ''class'' (Str ''fill'') (new_element ''use''))]\<rparr>
      in st3\<lparr>svg := svg st3 @
                   [attr_d p (setAttribute ''class'' (Str ''graticule'')
                      ((new_element ''path'')\<lparr>datum := Some Graticule\<rparr>))]\<rparr>)"

text \<open>The callback of \<open>d3.json\<close> when the world file has loaded without error: land and
  boundaries go in front of the graticule, the trajectory path at the end.\<close>

definition world_loaded :: "view \<Rightarrow> view" where
  "world_loaded st =
     (let p = projection st;
          st1 = st\<lparr>svg := insert_before [Class ''graticule'']
                   (attr_d p (setAttribute ''class'' (Str ''land'')
                      ((new_element ''path'')\<lparr>datum := Some Land\<rparr>))) (svg st)\<rparr>;
          st2 = st1\<lparr>svg := insert_before [Class ''graticule'']
                   (attr_d p (setAttribute ''class'' (Str ''boundary'')
                      ((new_element ''path'')\<lparr>datum := Some Boundary\<rparr>))) (svg st1)\<rparr>
      in st2\<lparr>svg := svg st2 @
                   [setAttribute ''class'' (Str ''trajectory'')
                      (attr_d p ((new_element ''path'')
                         \<lparr>datum := Some (LineString (trajectory st2))\<rparr>))]\<rparr>)"

text \<open>\<open>drawSat\<close>: the data join of the one-element array [[$lon, $lat]] with the circles
  present. The enter selection holds the datum only when there is no circle yet, and
  then one circle is appended; otherwise the datum is bound to the first circle and
  nothing is appended.\<close>

fun bind_first :: "geometry \<Rightarrow> element list \<Rightarrow> element list" where
  "bind_first g [] = []"
| "bind_first g (e # es) =
     (if matches [Tag ''circle''] e then e\<lparr>datum := Some g\<rparr> # es else e # bind_first g es)"

definition satellite :: "proj \<Rightarrow> point \<Rightarrow> element" where
  "satellite p c =
     setAttribute ''class'' (Str ''satellite'')
       (setAttribute ''fill'' (Str ''red'')
          (setAttribute ''r'' (Str ''8px'')
             (setAttribute ''cy'' (ProjY p c)
                (setAttribute ''cx'' (ProjX p c)
                   ((new_element ''circle'')\<lparr>datum := Some (Position c)\<rparr>)))))"

definition drawSat :: "view \<Rightarrow> view" where
  "drawSat st =
     (if filter (matches [Tag ''circle'']) (svg st) = []
      then st\<lparr>svg := svg st @ [satellite (projection st) (lon st, lat st)]\<rparr>
      else st\<lparr>svg := bind_first (Position (lon st, lat st)) (svg st)\<rparr>)"

text \<open>The selector of \<open>rotateProjection\<close>: the layers drawn through the projection.\<close>

definition projected_layers :: "selector list" where
  "projected_layers =
     [Class ''boundary'', Class ''land'', Class ''graticule'', Class ''fill'', Class ''stroke'',
      Id ''sphere'']"

definition rotateProjection :: "jsnum \<Rightarrow> jsnum \<Rightarrow> view \<Rightarrow> view" where
  "rotateProjection lat' lon' st =
     (let st1 = st\<lparr>projection := (projection st)\<lparr>p_rotate := [js_neg lon', js_neg lat']\<rparr>\<rparr>
      in st1\<lparr>svg := map (\<lambda>e. if matches projected_layers e
                             then attr_d (projection st1) e else e) (svg st1)\<rparr>)"

definition plotPoints :: "jsnum \<Rightarrow> jsnum \<Rightarrow> view \<Rightarrow> view" where
  "plotPoints lat' lon' st =
     st\<lparr>svg := map (\<lambda>e. if matches [Class ''trajectory''] e
                       then attr_d (projection st) (e\<lparr>datum := Some (LineString (trajectory st))\<rparr>)
                       else e) (svg st)\<rparr>"

definition addTrajectory :: "jsnum \<Rightarrow> jsnum \<Rightarrow> view \<Rightarrow> view" where
  "addTrajectory lat' lon' st = st\<lparr>trajectory := trajectory st @ [(lon', lat')]\<rparr>"

text \<open>The loop of \<open>appendLog\<close> runs over the array from its first entry and puts each
  entry, wrapped in a paragraph, in front of what the panel holds.\<close>

fun appendLog :: "string list \<Rightarrow> view \<Rightarrow> view" where
  "appendLog [] st = st"
| "appendLog (l # ls) st =
     appendLog ls (st\<lparr>log_panel := (''<p>'' @ l @ ''</p>'') # log_panel st\<rparr>)"

definition setTimeout_getStatus :: "jsnum \<Rightarrow> view \<Rightarrow> view" where
  "setTimeout_getStatus ms st = st\<lparr>timeouts := timeouts st @ [ms]\<rparr>"

text \<open>The status response as section 6 of the specification types it: the four
  position fields are numbers, possibly string-encoded.\<close>

datatype field = FNum jsnum | FStr string

record response =
  d_lon :: field
  d_lat :: field
  d_az :: field
  d_alt :: field
  d_time :: string
  d_interval :: jsnum
  d_log :: "string list"

text \<open>\<open>parseFloat\<close> converts its argument to a string first; a Number printed and read
  back is the same Number.\<close>

definition parseFloat :: "platform \<Rightarrow> field \<Rightarrow> jsnum" where
  "parseFloat P f = (case f of FNum x \<Rightarrow> x | FStr s \<Rightarrow> parseFloat_string P s)"

text \<open>\<open>getStatus\<close> sends the request; \<open>getStatus_success\<close> is the callback given to
  \<open>$.getJSON\<close>, \<open>getStatus_fail\<close> the one given to \<open>.fail\<close> (network or JSON syntax error).
  On a response so typed \<open>$time\<close> is the string \<open>data.time\<close> when the time label is set.\<close>

definition getStatus :: "view \<Rightarrow> view" where
  "getStatus st = st\<lparr>requests := requests st @ [href st @ ''?status'']\<rparr>"

definition getStatus_success :: "platform \<Rightarrow> response \<Rightarrow> view \<Rightarrow> view" where
  "getStatus_success P data st =
     (let st1 = st\<lparr>lon := parseFloat P (d_lon data)\<rparr>;
          st2 = st1\<lparr>lat := parseFloat P (d_lat data)\<rparr>;
          st3 = st2\<lparr>az := parseFloat P (d_az data)\<rparr>;
          st4 = st3\<lparr>alt := parseFloat P (d_alt data)\<rparr>;
          st5 = st4\<lparr>time := Some (JStr (d_time data))\<rparr>;
          st6 = addTrajectory (lat st5) (lon st5) st5;
          st7 = appendLog (d_log data) st6;
          st8 = st7\<lparr>lonlabel := toFixed3 P (lon st7)\<rparr>;
          st9 = st8\<lparr>latlabel := toFixed3 P (lat st8)\<rparr>;
          st10 = st9\<lparr>azilabel := toFixed3 P (az st9)\<rparr>;
          st11 = st10\<lparr>altlabel := toFixed3 P (alt st10)\<rparr>;
          st12 = st11\<lparr>timelabel := d_time data @ '' UTC''\<rparr>;
          st13 = rotateProjection (lat st12) (lon st12) st12;
          st14 = plotPoints (lat st13) (lon st13) st13
      in setTimeout_getStatus (js_times P (Fin 1000) (d_interval data)) st14)"

definition getStatus_fail :: "view \<Rightarrow> view" where
  "getStatus_fail st =
     (let st1 = setTimeout_getStatus (Fin 2000) st;
          st2 = st1\<lparr>trajectory := []\<rparr>
      in if \<not> stop_flag st2
         then appendLog [''Server connection failed. Retrying in 2s.''] st2
         else st2)"

subsection \<open>The callback on whatever arrives\<close>

text \<open>
  The functions above type the response as section 6 of the specification does. What
  follows is the same callback on any value jQuery may hand it: any JSON value, or
  \<open>undefined\<close> for a response without content. A statement either completes or raises a
  TypeError, which ends the callback there and leaves the globals as they are at that
  point; the loop of \<open>appendLog\<close> may also fail to end.
\<close>

datatype outcome = Returned | Threw | Diverged

definition then_e :: "error + 'a \<Rightarrow> ('a \<Rightarrow> error + 'b) \<Rightarrow> error + 'b" where
  "then_e r f = (case r of Inl e \<Rightarrow> Inl e | Inr x \<Rightarrow> f x)"

text \<open>A statement that evaluates an expression and then stores the value, and one that
  cannot raise.\<close>

definition store :: "(view \<Rightarrow> error + 'a) \<Rightarrow> ('a \<Rightarrow> view \<Rightarrow> view) \<Rightarrow> view \<Rightarrow> view \<times> outcome" where
  "store rhs upd st = (case rhs st of Inl e \<Rightarrow> (st, Threw) | Inr x \<Rightarrow> (upd x st, Returned))"

definition plain :: "(view \<Rightarrow> view) \<Rightarrow> view \<Rightarrow> view \<times> outcome" where
  "plain f st = (f st, Returned)"

fun run_statements :: "(view \<Rightarrow> view \<times> outcome) list \<Rightarrow> view \<Rightarrow> view \<times> outcome" where
  "run_statements [] st = (st, Returned)"
| "run_statements (s # ss) st =
     (case s st of
        (st', out) \<Rightarrow> (case out of Returned \<Rightarrow> run_statements ss st' | _ \<Rightarrow> (st', out)))"

text \<open>The body of the loop of \<open>appendLog\<close> for the entries \<open>log[0]\<close>, \<open>log[1]\<close>, ... in turn:
  \<open>"<p>" + log[i] + "</p>"\<close> converts the entry to a string.\<close>

fun prepend_each :: "platform \<Rightarrow> json option list \<Rightarrow> view \<Rightarrow> view \<times> outcome" where
  "prepend_each P [] st = (st, Returned)"
| "prepend_each P (v # vs) st =
     (case js_string P v of
        Inl e \<Rightarrow> (st, Threw)
      | Inr s \<Rightarrow> prepend_each P vs (st\<lparr>log_panel := (''<p>'' @ s @ ''</p>'') # log_panel st\<rparr>))"

text \<open>
  \<open>appendLog(log)\<close> for any argument. \<open>log.length\<close> raises on \<open>undefined\<close> and \<open>null\<close>, is
  \<open>undefined\<close> on a boolean or a number (so the loop does not run), and is the length of a
  string or an array, whose entries are its characters or elements. On an object it is
  the own property \<open>length\<close>, converted to a number at each test \<open>i < log.length\<close>, and
  \<open>log[i]\<close> is the own property named by the decimal digits of i. The counter is a
  double: at 2^53 it stops growing, so with a greater length the loop stays at that
  index for ever, unless the entry there raises. (The globals returned with \<open>Diverged\<close>
  are those when the counter reaches 2^53.)
\<close>

definition object_entries :: "(string \<times> json) list \<Rightarrow> nat \<Rightarrow> json option list" where
  "object_entries kvs n = map (\<lambda>i. own_property kvs (dec i)) [0..<n]"

definition stuck_loop :: "platform \<Rightarrow> (string \<times> json) list \<Rightarrow> view \<Rightarrow> view \<times> outcome" where
  "stuck_loop P kvs st =
     (case prepend_each P (object_entries kvs (2 ^ 53)) st of
        (st', out) \<Rightarrow>
          (case out of
             Returned \<Rightarrow>
               (case js_string P (own_property kvs (dec (2 ^ 53))) of
                  Inl e \<Rightarrow> (st', Threw)
                | Inr s \<Rightarrow> (st', Diverged))
           | _ \<Rightarrow> (st', out)))"

definition appendLog_js :: "platform \<Rightarrow> json option \<Rightarrow> view \<Rightarrow> view \<times> outcome" where
  "appendLog_js P entries st =
     (case entries of
        None \<Rightarrow> (st, Threw)
      | Some JNull \<Rightarrow> (st, Threw)
      | Some (JBool b) \<Rightarrow> (st, Returned)
      | Some (JNum x) \<Rightarrow> (st, Returned)
      | Some (JStr s) \<Rightarrow> prepend_each P (map (\<lambda>c. Some (JStr [c])) s) st
      | Some (JArr vs) \<Rightarrow> prepend_each P (map Some vs) st
      | Some (JObj kvs) \<Rightarrow>
          (case to_number P (own_property kvs ''length'') of
             Inl e \<Rightarrow> (st, Threw)
           | Inr n \<Rightarrow>
               (case n of
                  NaN \<Rightarrow> (st, Returned)
                | NInf \<Rightarrow> (st, Returned)
                | PInf \<Rightarrow> stuck_loop P kvs st
                | Fin q \<Rightarrow>
                    (if q \<le> 0 then (st, Returned)
                     else if q \<le> 2 ^ 53
                     then prepend_each P (object_entries kvs (nat \<lceil>q\<rceil>)) st
                     else stuck_loop P kvs st))))"

definition getStatus_callback :: "platform \<Rightarrow> json option \<Rightarrow> view \<Rightarrow> view \<times> outcome" where
  "getStatus_callback P data =
     run_statements
       [store (\<lambda>st. then_e (get_prop data ''lon'') (parseFloat_js P)) (\<lambda>x st. st\<lparr>lon := x\<rparr>),
        store (\<lambda>st. then_e (get_prop data ''lat'') (parseFloat_js P)) (\<lambda>x st. st\<lparr>lat := x\<rparr>),
        store (\<lambda>st. then_e (get_prop data ''az'') (parseFloat_js P)) (\<lambda>x st. st\<lparr>az := x\<rparr>),
        store (\<lambda>st. then_e (get_prop data ''alt'') (parseFloat_js P)) (\<lambda>x st. st\<lparr>alt := x\<rparr>),
        store (\<lambda>st. get_prop data ''time'') (\<lambda>v st. st\<lparr>time := v\<rparr>),
        plain (\<lambda>st. addTrajectory (lat st) (lon st) st),
        (\<lambda>st. case get_prop data ''log'' of
                Inl e \<Rightarrow> (st, Threw)
              | Inr l \<Rightarrow> appendLog_js P l st),
        plain (\<lambda>st. st\<lparr>lonlabel := toFixed3 P (lon st)\<rparr>),
        plain (\<lambda>st. st\<lparr>latlabel := toFixed3 P (lat st)\<rparr>),
        plain (\<lambda>st. st\<lparr>azilabel := toFixed3 P (az st)\<rparr>),
        plain (\<lambda>st. st\<lparr>altlabel := toFixed3 P (alt st)\<rparr>),
        store (\<lambda>st. then_e (js_string P (time st)) (\<lambda>s. Inr (s @ '' UTC'')))
          (\<lambda>s st. st\<lparr>timelabel := s\<rparr>),
        plain (\<lambda>st. rotateProjection (lat st) (lon st) st),
        plain (\<lambda>st. plotPoints (lat st) (lon st) st),
        store (\<lambda>st. then_e (get_prop data ''interval'')
                      (\<lambda>v. then_e (to_number P v) (\<lambda>n. Inr (js_times P (Fin 1000) n))))
          setTimeout_getStatus]"

text \<open>
  How the request ends. jQuery calls the function given to \<open>$.getJSON\<close> when the request
  succeeded and its body was parsed, and the function given to \<open>.fail\<close> otherwise (a
  network or HTTP error, or a body that is not JSON). An exception raised by the first
  is not a failure of the request: the second is not called for it.
\<close>

datatype reply = Failed | Delivered "json option"

definition getStatus_settled :: "platform \<Rightarrow> reply \<Rightarrow> view \<Rightarrow> view \<times> outcome" where
  "getStatus_settled P r st =
     (case r of
        Failed \<Rightarrow> (getStatus_fail st, Returned)
      | Delivered data \<Rightarrow> getStatus_callback P data st)"

text \<open>A response typed as in section 6, as the JSON object it is.\<close>

definition json_of_field :: "field \<Rightarrow> json" where
  "json_of_field f = (case f of FNum x \<Rightarrow> JNum x | FStr s \<Rightarrow> JStr s)"

definition json_of_response :: "response \<Rightarrow> json" where
  "json_of_response data =
     JObj [(''lon'', json_of_field (d_lon data)), (''lat'', json_of_field (d_lat data)),
           (''az'', json_of_field (d_az data)), (''alt'', json_of_field (d_alt data)),
           (''time'', JStr (d_time data)), (''interval'', JNum (d_interval data)),
           (''log'', JArr (map JStr (d_log data)))]"

subsection \<open>Startup and events\<close>

text \<open>The document-ready handler. \<open>setClickListeners\<close> only registers the click
  handlers above.\<close>

definition setClickListeners :: "view \<Rightarrow> view" where
  "setClickListeners st = st"

definition ready :: "platform \<Rightarrow> page \<Rightarrow> view" where
  "ready P pg = getStatus (setClickListeners (drawSat (drawMap (setVariables P pg))))"

text \<open>Everything that can happen after that, one callback at a time. A timer that fires
  calls \<open>getStatus\<close>; when the world file fails to load the callback throws and changes
  nothing.\<close>

datatype event =
    StatusSuccess response | StatusFail | TimerFired
  | ClickStartComputing | StartComputingSuccess
  | ClickStopComputing | StopComputingSuccess
  | ClickStartTracking | ClickStopTracking
  | WorldLoaded | WorldError

fun step :: "platform \<Rightarrow> view \<Rightarrow> event \<Rightarrow> view" where
  "step P st (StatusSuccess data) = getStatus_success P data st"
| "step P st StatusFail = getStatus_fail st"
| "step P st TimerFired = getStatus st"
| "step P st ClickStartComputing = startcomputing_click st"
| "step P st StartComputingSuccess = startcomputing_success st"
| "step P st ClickStopComputing = stopcomputing_click st"
| "step P st StopComputingSuccess = stopcomputing_success st"
| "step P st ClickStartTracking = starttracking_click st"
| "step P st ClickStopTracking = stoptracking_click st"
| "step P st WorldLoaded = world_loaded st"
| "step P st WorldError = st"

definition run :: "platform \<Rightarrow> view \<Rightarrow> event list \<Rightarrow> view" where
  "run P st evs = foldl (step P) st evs"

section \<open>Observations and examples\<close>

text \<open>The events that are a successful status response.\<close>

fun is_status_success :: "event \<Rightarrow> bool" where
  "is_status_success (StatusSuccess data) = True"
| "is_status_success ev = False"

text \<open>A value converts when its conversion to a string raises no TypeError: every
  value but an object with a property \<open>toString\<close> and an array that holds one.\<close>

definition converts :: "platform \<Rightarrow> json option \<Rightarrow> bool" where
  "converts P v = (case js_string P v of Inl e \<Rightarrow> False | Inr s \<Rightarrow> True)"

text \<open>A log that is an array of values that convert, a string, a number or a boolean.\<close>

definition log_ok :: "platform \<Rightarrow> json option \<Rightarrow> bool" where
  "log_ok P l =
     (case l of
        Some (JArr vs) \<Rightarrow> list_all (\<lambda>v. converts P (Some v)) vs
      | Some (JStr s) \<Rightarrow> True
      | Some (JNum x) \<Rightarrow> True
      | Some (JBool b) \<Rightarrow> True
      | _ \<Rightarrow> False)"

text \<open>The five label texts of the page.\<close>

definition labels :: "view \<Rightarrow> string \<times> string \<times> string \<times> string \<times> string" where
  "labels st = (lonlabel st, latlabel st, azilabel st, altlabel st, timelabel st)"

text \<open>The satellite marker: what \<open>$svg.selectAll("circle")\<close> selects.\<close>

definition marker :: "view \<Rightarrow> element list" where
  "marker st = filter (matches [Tag ''circle'']) (svg st)"

text \<open>The position attributes of an element.\<close>

definition position_attrs :: "element \<Rightarrow> attrval option \<times> attrval option" where
  "position_attrs e = (map_of (attrs e) ''cx'', map_of (attrs e) ''cy'')"

definition has_nan :: "point \<Rightarrow> bool" where
  "has_nan c = (fst c = NaN \<or> snd c = NaN)"

text \<open>Projection Setup as the specification words it: the side of the square is the
  lesser of 90% of the viewport width and 45% of the viewport height.\<close>

definition spec_side_length :: "int \<Rightarrow> int \<Rightarrow> rat" where
  "spec_side_length w h = min (9 / 10 * of_int w) (45 / 100 * of_int h)"

text \<open>A platform for the examples, on which every rational is a Number and no result
  is rounded; no example prints a Number other than through \<open>toFixed\<close> below 10^21.\<close>

definition exact :: platform where
  "exact = \<lparr>rnd = Fin, num_to_string = (\<lambda>x. [])\<rparr>"

definition example_page :: page where
  "example_page =
     \<lparr>innerWidth = 1000, outerHeight = 500, location_href = ''http://host/'',
      ui_attrs0 = [], label_texts0 = (''-'', ''-'', ''-'', ''-'', ''-''),
      log_panel0 = []\<rparr>"

definition example_response :: response where
  "example_response =
     \<lparr>d_lon = FNum (Fin 20), d_lat = FNum (Fin 10), d_az = FNum (Fin (3 / 2)),
      d_alt = FStr ''408.25'', d_time = ''12:00:00'', d_interval = Fin 5,
      d_log = [''a'', ''b'']\<rparr>"

text \<open>The members of four response objects: one in which no position field parses; one
  in which only the azimuth does not; one without \<open>log\<close> whose longitude does not parse;
  one whose longitude is an object with a property \<open>toString\<close>.\<close>

definition garbled_members :: "(string \<times> json) list" where
  "garbled_members =
     [(''lon'', JStr ''abc''), (''lat'', JNull), (''az'', JBool True),
      (''time'', JStr ''12:00:05''), (''interval'', JNum (Fin 5)),
      (''log'', JArr [JStr ''a''])]"

definition bad_azimuth_members :: "(string \<times> json) list" where
  "bad_azimuth_members =
     [(''lon'', JNum (Fin 20)), (''lat'', JNum (Fin 10)), (''az'', JStr ''n/a''),
      (''alt'', JNum (Fin 408)), (''time'', JStr ''12:00:05''),
      (''interval'', JNum (Fin 5)), (''log'', JArr [])]"

definition no_log_members :: "(string \<times> json) list" where
  "no_log_members =
     [(''lon'', JStr ''abc''), (''lat'', JNum (Fin 10)), (''az'', JNum (Fin 1)),
      (''alt'', JNum (Fin 408)), (''time'', JStr ''12:00:05''),
      (''interval'', JNum (Fin 5))]"

definition toString_members :: "(string \<times> json) list" where
  "toString_members =
     [(''lon'', JObj [(''toString'', JNum (Fin 1))]), (''lat'', JNum (Fin 10)),
      (''az'', JNum (Fin 1)), (''alt'', JNum (Fin 408)), (''time'', JStr ''12:00:05''),
      (''interval'', JNum (Fin 5)), (''log'', JArr [])]"

section \<open>Evaluation and the effect of the callbacks on each global\<close>

declare dec.simps [simp del]

lemma dec_small: "n < 10 \<Longrightarrow> dec n = [digit_char n]"
  by (simp add: dec.simps)

lemma dec_big: "\<not> n < 10 \<Longrightarrow> dec n = dec (n div 10) @ [digit_char (n mod 10)]"
  by (subst dec.simps) simp

lemma floor_rat_numeral: "\<lfloor>numeral a / numeral b :: rat\<rfloor> = numeral a div numeral b"
  by (metis floor_divide_of_int_eq of_int_numeral)

lemma replicate_numeral: "replicate (numeral v) x = x # replicate (numeral v - 1) x"
  by (simp add: numeral_eq_Suc)

lemmas toFixed3_eval = toFixed3_def pad4_def digit_char_def dec_small dec_big floor_rat_numeral
  replicate_numeral

lemmas parse_defs = parseFloat_def parseFloat_string_def parse_unsigned_def unsigned_value_def
  is_ws_def is_digit_def starts_with_def exponent_part_def digits_val_def digit_val_def
  digit_table_def scale10_def

lemma appendLog_eq:
  "appendLog ls st = st\<lparr>log_panel := rev (map (\<lambda>l. ''<p>'' @ l @ ''</p>'') ls) @ log_panel st\<rparr>"
  by (induction ls arbitrary: st) simp_all

lemmas handler_defs = getStatus_success_def getStatus_fail_def addTrajectory_def
  rotateProjection_def plotPoints_def setTimeout_getStatus_def appendLog_eq Let_def

lemma success_trajectory:
  "trajectory (getStatus_success P data st) =
     trajectory st @ [(parseFloat P (d_lon data), parseFloat P (d_lat data))]"
  by (simp add: handler_defs)

lemma success_timeouts:
  "timeouts (getStatus_success P data st) =
     timeouts st @ [js_times P (Fin 1000) (d_interval data)]"
  by (simp add: handler_defs)

lemma success_log_panel:
  "log_panel (getStatus_success P data st) =
     rev (map (\<lambda>l. ''<p>'' @ l @ ''</p>'') (d_log data)) @ log_panel st"
  by (simp add: handler_defs)

lemma success_rotate:
  "p_rotate (projection (getStatus_success P data st)) =
     [js_neg (parseFloat P (d_lon data)), js_neg (parseFloat P (d_lat data))]"
  by (simp add: handler_defs)

lemma success_position:
  "lon (getStatus_success P data st) = parseFloat P (d_lon data)"
  "lat (getStatus_success P data st) = parseFloat P (d_lat data)"
  "az (getStatus_success P data st) = parseFloat P (d_az data)"
  "alt (getStatus_success P data st) = parseFloat P (d_alt data)"
  "time (getStatus_success P data st) = Some (JStr (d_time data))"
  by (simp_all add: handler_defs)

lemma success_labels:
  "lonlabel (getStatus_success P data st) = toFixed3 P (parseFloat P (d_lon data))"
  "latlabel (getStatus_success P data st) = toFixed3 P (parseFloat P (d_lat data))"
  "azilabel (getStatus_success P data st) = toFixed3 P (parseFloat P (d_az data))"
  "altlabel (getStatus_success P data st) = toFixed3 P (parseFloat P (d_alt data))"
  "timelabel (getStatus_success P data st) = d_time data @ '' UTC''"
  by (simp_all add: handler_defs)

lemma success_stop_flag: "stop_flag (getStatus_success P data st) = stop_flag st"
  by (simp add: handler_defs)

lemma fail_fields:
  "timeouts (getStatus_fail st) = timeouts st @ [Fin 2000]"
  "trajectory (getStatus_fail st) = []"
  "log_panel (getStatus_fail st) =
     (if stop_flag st then log_panel st
      else ''<p>Server connection failed. Retrying in 2s.</p>'' # log_panel st)"
  "stop_flag (getStatus_fail st) = stop_flag st"
  by (simp_all add: handler_defs)


lemma exact_rnd_fun: "rnd exact = Fin"
  by (simp add: exact_def)

lemma exact_rnd: "rnd exact q = Fin q"
  by (simp add: exact_def)

lemma example_response_fields:
  "d_lon example_response = FNum (Fin 20)"
  "d_lat example_response = FNum (Fin 10)"
  "d_az example_response = FNum (Fin (3 / 2))"
  "d_alt example_response = FStr ''408.25''"
  "d_time example_response = ''12:00:00''"
  "d_interval example_response = Fin 5"
  "d_log example_response = [''a'', ''b'']"
  by (simp_all add: example_response_def)

lemma example_page_fields:
  "innerWidth example_page = 1000"
  "outerHeight example_page = 500"
  "log_panel0 example_page = []"
  by (simp_all add: example_page_def)

lemmas example_defs = exact_rnd example_response_fields example_page_fields

lemma ready_fields:
  "trajectory (ready P pg) = []"
  "timeouts (ready P pg) = []"
  "log_panel (ready P pg) = log_panel0 pg"
  "stop_flag (ready P pg) = False"
  by (simp_all add: ready_def getStatus_def setClickListeners_def drawSat_def drawMap_def
        setVariables_def Let_def)

text \<open>
  C1. Every successful poll response makes the trajectory one point longer: the point
  appended is (longitude, latitude), the parsed \<open>lon\<close> and \<open>lat\<close> fields of the response in
  that order (the two numbers themselves when the fields are numbers), and the points
  recorded before stay as they were, in place.
\<close>

theorem poll_success_appends_point:
  "trajectory (getStatus_success P data st) =
     trajectory st @ [(parseFloat P (d_lon data), parseFloat P (d_lat data))]
   \<and> length (trajectory (getStatus_success P data st)) = Suc (length (trajectory st))
   \<and> take (length (trajectory st)) (trajectory (getStatus_success P data st)) = trajectory st
   \<and> trajectory (getStatus_success P (data\<lparr>d_lon := FNum x, d_lat := FNum y\<rparr>) st) =
       trajectory st @ [(x, y)]"
  by (simp add: success_trajectory parseFloat_def)

theorem poll_success_appends_point_witness:
  "trajectory (getStatus_success exact example_response (ready exact example_page)) =
     [(Fin 20, Fin 10)]"
  using poll_success_appends_point [of exact example_response "ready exact example_page"]
  by (simp add: ready_fields parseFloat_def example_defs)

text \<open>
  C2. After every successful poll response the rotation of the projection is
  [-lon, -lat] for the parsed longitude and latitude of the response; with lat = 10 and
  lon = 20 it is [-20, -10].
\<close>

theorem poll_success_rotates:
  "p_rotate (projection (getStatus_success P data st)) =
     [js_neg (parseFloat P (d_lon data)), js_neg (parseFloat P (d_lat data))]
   \<and> p_rotate (projection
        (getStatus_success P (data\<lparr>d_lat := FNum (Fin 10), d_lon := FNum (Fin 20)\<rparr>) st)) =
       [Fin (- 20), Fin (- 10)]"
  by (simp add: success_rotate parseFloat_def js_neg_def)

theorem poll_success_rotates_witness:
  "p_rotate (projection (getStatus_success exact example_response (ready exact example_page))) =
     [Fin (- 20), Fin (- 10)]"
  using poll_success_rotates [of exact example_response "ready exact example_page"]
  by (simp add: parseFloat_def js_neg_def example_defs)

text \<open>
  C3. On every poll failure, whatever the state (so whatever the length of the trajectory
  and the interval received before): one timeout of 2000 ms is set for the next poll, the
  trajectory is empty afterwards, and the log panel gains exactly one line, the
  connection-failure line on top, when the stop flag is false and is unchanged when it is
  true.
\<close>

theorem poll_failure_effects:
  "timeouts (getStatus_fail st) = timeouts st @ [Fin 2000]
   \<and> trajectory (getStatus_fail st) = []
   \<and> log_panel (getStatus_fail st) =
       (if stop_flag st then log_panel st
        else ''<p>Server connection failed. Retrying in 2s.</p>'' # log_panel st)"
  by (simp add: fail_fields)

theorem poll_failure_effects_witness:
  "timeouts (getStatus_fail (getStatus_success exact example_response (ready exact example_page)))
     = [Fin 5000, Fin 2000]
   \<and> trajectory (getStatus_fail
        (getStatus_success exact example_response (ready exact example_page))) = []
   \<and> log_panel (getStatus_fail
        (getStatus_success exact example_response (ready exact example_page))) =
       [''<p>Server connection failed. Retrying in 2s.</p>'', ''<p>b</p>'', ''<p>a</p>'']
   \<and> log_panel (getStatus_fail (stopcomputing_success
        (getStatus_success exact example_response (ready exact example_page)))) =
       [''<p>b</p>'', ''<p>a</p>'']"
  using poll_failure_effects
          [of "getStatus_success exact example_response (ready exact example_page)"]
        poll_failure_effects
          [of "stopcomputing_success
                 (getStatus_success exact example_response (ready exact example_page))"]
  by (simp add: success_timeouts success_log_panel success_stop_flag ready_fields
        stopcomputing_success_def js_times_def example_defs)

text \<open>
  C4. A successful poll response sets one timeout for the next poll, whose delay in
  milliseconds is the product of 1000 and the interval field as JavaScript computes it,
  which is 1000 times the interval whenever that number is a Number. A failure after it
  sets the next timeout to 2000 ms, as a failure does in every state, whatever interval
  was received.
\<close>

theorem poll_delay:
  "timeouts (getStatus_success P data st) =
     timeouts st @ [js_times P (Fin 1000) (d_interval data)]
   \<and> (d_interval data = Fin x \<and> rnd P (1000 * x) = Fin (1000 * x) \<longrightarrow>
        timeouts (getStatus_success P data st) = timeouts st @ [Fin (1000 * x)])
   \<and> timeouts (getStatus_fail (getStatus_success P data st)) =
       timeouts st @ [js_times P (Fin 1000) (d_interval data), Fin 2000]
   \<and> timeouts (getStatus_fail st') = timeouts st' @ [Fin 2000]"
  by (simp add: success_timeouts fail_fields js_times_def)

theorem poll_delay_witness:
  "d_interval example_response = Fin 5 \<and> rnd exact (1000 * 5) = Fin (1000 * 5)
   \<and> timeouts (getStatus_success exact example_response (ready exact example_page)) = [Fin 5000]
   \<and> timeouts (getStatus_fail
        (getStatus_success exact example_response (ready exact example_page))) =
       [Fin 5000, Fin 2000]"
  using poll_delay [of exact example_response "ready exact example_page" 5]
  by (simp add: ready_fields js_times_def example_defs)

text \<open>
  C6. A successful poll response whose log is ["a", "b"] leaves the paragraph of b on top
  of the log panel, the paragraph of a below it, and the earlier content below both: in
  general the entries are put in front one at a time in the order of the array.
\<close>

theorem log_entries_prepended:
  "log_panel (getStatus_success P (data\<lparr>d_log := [''a'', ''b'']\<rparr>) st) =
     ''<p>b</p>'' # ''<p>a</p>'' # log_panel st
   \<and> log_panel (getStatus_success P data st) =
       rev (map (\<lambda>l. ''<p>'' @ l @ ''</p>'') (d_log data)) @ log_panel st"
  by (simp add: success_log_panel)

theorem log_entries_prepended_witness:
  "log_panel (getStatus_success exact example_response
      (getStatus_fail (ready exact example_page))) =
     [''<p>b</p>'', ''<p>a</p>'', ''<p>Server connection failed. Retrying in 2s.</p>'']"
  using log_entries_prepended
          [of exact example_response "getStatus_fail (ready exact example_page)"]
  by (simp add: fail_fields ready_fields example_defs)

lemma labels_success:
  "labels (getStatus_success P data st) =
     (toFixed3 P (parseFloat P (d_lon data)), toFixed3 P (parseFloat P (d_lat data)),
      toFixed3 P (parseFloat P (d_az data)), toFixed3 P (parseFloat P (d_alt data)),
      d_time data @ '' UTC'')"
  by (simp add: labels_def success_labels)

lemma run_Cons: "run P st (ev # evs) = run P (step P st ev) evs"
  by (simp add: run_def)

lemma run_Nil: "run P st [] = st"
  by (simp add: run_def)

lemma repeated_trajectory:
  "trajectory (run P st (replicate n (StatusSuccess data))) =
     trajectory st @ replicate n (parseFloat P (d_lon data), parseFloat P (d_lat data))"
proof (induction n arbitrary: st)
  case 0
  show ?case by (simp add: run_Nil)
next
  case (Suc n)
  show ?case
    by (simp add: run_Cons Suc.IH success_trajectory replicate_app_Cons_same)
qed

lemma repeated_labels:
  "labels (run P st (replicate (Suc n) (StatusSuccess data))) =
     labels (getStatus_success P data st)"
proof (induction n arbitrary: st)
  case 0
  show ?case by (simp add: run_Cons run_Nil)
next
  case (Suc n)
  have "labels (run P st (replicate (Suc (Suc n)) (StatusSuccess data))) =
          labels (run P (getStatus_success P data st) (replicate (Suc n) (StatusSuccess data)))"
    by (simp add: run_Cons)
  also have "\<dots> = labels (getStatus_success P data (getStatus_success P data st))"
    by (rule Suc.IH)
  also have "\<dots> = labels (getStatus_success P data st)"
    by (simp add: labels_success)
  finally show ?case .
qed

text \<open>
  C8. Processing the same status response again leaves the five labels as the first
  processing set them, however often it is repeated, while every processing appends one
  more copy of the same point to the trajectory.
\<close>

theorem repeated_poll_labels_and_trajectory:
  "labels (getStatus_success P data (getStatus_success P data st)) =
     labels (getStatus_success P data st)
   \<and> labels (run P st (replicate (Suc n) (StatusSuccess data))) =
       labels (getStatus_success P data st)
   \<and> trajectory (getStatus_success P data (getStatus_success P data st)) =
       trajectory (getStatus_success P data st)
         @ [(parseFloat P (d_lon data), parseFloat P (d_lat data))]
   \<and> trajectory (run P st (replicate n (StatusSuccess data))) =
       trajectory st @ replicate n (parseFloat P (d_lon data), parseFloat P (d_lat data))"
  by (simp add: labels_success success_trajectory repeated_trajectory repeated_labels
        del: replicate.simps)

lemma example_labels:
  "labels (getStatus_success exact example_response st) =
     (''20.000'', ''10.000'', ''1.500'', ''408.250'', ''12:00:00 UTC'')"
  by (simp add: labels_success example_response_fields exact_rnd parse_defs toFixed3_eval)

theorem repeated_poll_labels_and_trajectory_witness:
  "labels (run exact (ready exact example_page)
      [StatusSuccess example_response, StatusSuccess example_response,
       StatusSuccess example_response]) =
     (''20.000'', ''10.000'', ''1.500'', ''408.250'', ''12:00:00 UTC'')
   \<and> trajectory (run exact (ready exact example_page)
        [StatusSuccess example_response, StatusSuccess example_response]) =
       [(Fin 20, Fin 10), (Fin 20, Fin 10)]"
  using repeated_poll_labels_and_trajectory
          [of exact example_response "ready exact example_page" 2]
  by (simp add: example_labels ready_fields parseFloat_def example_defs numeral_2_eq_2)

text \<open>
  C5, as stated, fails: the stop button is clicked, a status response that was under way
  arrives, then the response to the stop command arrives. The stop flag is set and the
  trajectory holds a point.
\<close>

theorem stop_success_counterexample:
  "stop_flag (run exact (ready exact example_page)
      [ClickStopComputing, StatusSuccess example_response, StopComputingSuccess])
   \<and> trajectory (run exact (ready exact example_page)
        [ClickStopComputing, StatusSuccess example_response, StopComputingSuccess]) =
       [(Fin 20, Fin 10)]
   \<and> trajectory (run exact (ready exact example_page)
        [ClickStopComputing, StatusSuccess example_response, StopComputingSuccess]) \<noteq> []"
  by (simp add: run_def stopcomputing_success_def stopcomputing_click_def Let_def
        success_trajectory parseFloat_def example_defs)

lemma run_snoc: "run P st (evs @ [ev]) = step P (run P st evs) ev"
  by (simp add: run_def)

lemma step_keeps_empty:
  assumes "trajectory st = []" and "\<not> is_status_success ev"
  shows "trajectory (step P st ev) = []"
  using assms
  by (cases ev)
     (simp_all add: fail_fields getStatus_def startcomputing_click_def
        startcomputing_success_def stopcomputing_click_def stopcomputing_success_def
        starttracking_click_def stoptracking_click_def world_loaded_def Let_def)

lemma run_keeps_empty:
  "trajectory st = [] \<Longrightarrow> list_all (\<lambda>ev. \<not> is_status_success ev) evs \<Longrightarrow>
     trajectory (run P st evs) = []"
proof (induction evs arbitrary: st)
  case Nil
  then show ?case by (simp add: run_Nil)
next
  case (Cons ev evs)
  from Cons.prems have "trajectory (step P st ev) = []"
    by (simp add: step_keeps_empty)
  moreover from Cons.prems have "list_all (\<lambda>ev. \<not> is_status_success ev) evs"
    by simp
  ultimately have "trajectory (run P (step P st ev) evs) = []"
    by (rule Cons.IH)
  then show ?case by (simp add: run_Cons)
qed

text \<open>
  C5, amended. Clicking stop-computing empties the trajectory at once, in every state and
  before any response. The successful response to the stop command sets the stop flag
  and leaves the trajectory as it is: the trajectory is empty after that response
  whenever no status response succeeded between the click and it, whatever else
  happened in between (failed polls, timers, clicks, the world file loading). The
  successful response to the start command clears the stop flag and leaves the
  trajectory as it is.
\<close>

theorem computing_commands:
  "trajectory (stopcomputing_click st) = []
   \<and> stop_flag (stopcomputing_click st) = stop_flag st
   \<and> stop_flag (stopcomputing_success st) = True
   \<and> trajectory (stopcomputing_success st) = trajectory st
   \<and> trajectory (stopcomputing_success (stopcomputing_click st)) = []
   \<and> stop_flag (startcomputing_success st) = False
   \<and> trajectory (startcomputing_success st) = trajectory st
   \<and> (list_all (\<lambda>ev. \<not> is_status_success ev) evs \<longrightarrow>
        trajectory (run P (stopcomputing_click st) (evs @ [StopComputingSuccess])) = []
        \<and> stop_flag (run P (stopcomputing_click st) (evs @ [StopComputingSuccess])) = True)"
proof -
  have "trajectory (run P (stopcomputing_click st) evs) = []"
    if "list_all (\<lambda>ev. \<not> is_status_success ev) evs"
    using that by (intro run_keeps_empty) (simp_all add: stopcomputing_click_def Let_def)
  then show ?thesis
    by (simp add: run_snoc stopcomputing_click_def stopcomputing_success_def
          startcomputing_success_def Let_def)
qed

theorem computing_commands_witness:
  "list_all (\<lambda>ev. \<not> is_status_success ev)
     [StatusFail, TimerFired, WorldLoaded, ClickStartTracking, StartComputingSuccess]
   \<and> trajectory (run exact
        (stopcomputing_click (getStatus_success exact example_response (ready exact example_page)))
        ([StatusFail, TimerFired, WorldLoaded, ClickStartTracking, StartComputingSuccess]
           @ [StopComputingSuccess])) = []
   \<and> stop_flag (run exact
        (stopcomputing_click (getStatus_success exact example_response (ready exact example_page)))
        ([StatusFail, TimerFired, WorldLoaded, ClickStartTracking, StartComputingSuccess]
           @ [StopComputingSuccess])) = True
   \<and> trajectory (stopcomputing_click
        (getStatus_success exact example_response (ready exact example_page))) = []
   \<and> stop_flag (startcomputing_success (stopcomputing_success (stopcomputing_click
        (getStatus_success exact example_response (ready exact example_page))))) = False"
  using computing_commands
          [of "getStatus_success exact example_response (ready exact example_page)"
              "[StatusFail, TimerFired, WorldLoaded, ClickStartTracking, StartComputingSuccess]"
              exact]
        computing_commands
          [of "stopcomputing_success (stopcomputing_click
                 (getStatus_success exact example_response (ready exact example_page)))"]
  by simp

lemma setVariables_size:
  "width (setVariables P pg) =
     (if outerHeight pg < innerWidth pg
      then js_times P (rnd P (45 / 100)) (Fin (of_int (innerWidth pg)))
      else js_times P (rnd P (9 / 10)) (Fin (of_int (innerWidth pg))))"
  "height (setVariables P pg) = width (setVariables P pg)"
  "svg_attrs (setVariables P pg) =
     [(''width'', Num (width (setVariables P pg))),
      (''height'', Num (width (setVariables P pg)))]"
  by (simp_all add: setVariables_def Let_def)

text \<open>
  C9. In a window 1000 wide and 300 high the drawing area is a square of side 450, the
  product of 0.45 and the inner width: more than the height of the window, while the
  lesser of 90% of the width and 45% of the height is 135. The comparison of the two
  dimensions only selects the factor; the height never enters the length.
\<close>

theorem side_length_in_wide_window:
  "width (setVariables exact (example_page\<lparr>outerHeight := 300\<rparr>)) = Fin 450
   \<and> height (setVariables exact (example_page\<lparr>outerHeight := 300\<rparr>)) = Fin 450
   \<and> rat_of_int (outerHeight (example_page\<lparr>outerHeight := 300\<rparr>)) < 450
   \<and> spec_side_length (innerWidth (example_page\<lparr>outerHeight := 300\<rparr>))
        (outerHeight (example_page\<lparr>outerHeight := 300\<rparr>)) = 135
   \<and> width (setVariables exact (example_page\<lparr>outerHeight := 300\<rparr>)) \<noteq>
       Fin (spec_side_length (innerWidth (example_page\<lparr>outerHeight := 300\<rparr>))
              (outerHeight (example_page\<lparr>outerHeight := 300\<rparr>)))"
  by (simp add: setVariables_size js_times_def spec_side_length_def example_defs)

lemma toFixed3_NaN: "toFixed3 P NaN = ''NaN''"
  by (simp add: toFixed3_def)

section \<open>The satellite marker\<close>

lemma matches_circle: "matches [Tag ''circle''] e = (tag e = ''circle'')"
  by (simp add: matches_def matches1_def)

lemma tag_attr_d: "tag (attr_d p e) = tag e"
  by (simp add: attr_d_def setAttribute_def removeAttribute_def split: option.split)

lemma map_of_put: "map_of (put k v kvs) k' = (if k' = k then Some v else map_of kvs k')"
  by (induction kvs) auto

lemma map_of_remove:
  "map_of (filter (\<lambda>kv. fst kv \<noteq> k) kvs) k' = (if k' = k then None else map_of kvs k')"
  by (induction kvs) auto

lemma position_attr_d: "position_attrs (attr_d p e) = position_attrs e"
  by (simp add: position_attrs_def attr_d_def setAttribute_def removeAttribute_def
        map_of_put map_of_remove split: option.split)

lemma position_datum: "position_attrs (e\<lparr>datum := g\<rparr>) = position_attrs e"
  by (simp add: position_attrs_def)

lemma satellite_no_layer:
  "\<not> matches projected_layers (satellite p c)"
  "\<not> matches [Class ''trajectory''] (satellite p c)"
  "tag (satellite p c) = ''circle''"
  by (simp_all add: matches_def matches1_def projected_layers_def satellite_def
        setAttribute_def new_element_def)

lemma satellite_position:
  "position_attrs (satellite p c) = (Some (ProjX p c), Some (ProjY p c))"
  by (simp add: position_attrs_def satellite_def setAttribute_def new_element_def)

lemma matches_circle_fun: "matches [Tag ''circle''] = (\<lambda>e. tag e = ''circle'')"
  by (rule ext) (simp add: matches_circle)

lemma marker_alt: "marker st = filter (\<lambda>e. tag e = ''circle'') (svg st)"
  by (simp add: marker_def matches_circle_fun)

lemma circles_map:
  assumes "\<And>e. e \<in> set xs \<Longrightarrow> tag e = ''circle'' \<Longrightarrow> f e = e"
    and "\<And>e. tag (f e) = tag e"
  shows "filter (\<lambda>e. tag e = ''circle'') (map f xs) = filter (\<lambda>e. tag e = ''circle'') xs"
  using assms(1)
proof (induction xs)
  case Nil
  show ?case by simp
next
  case (Cons x xs)
  have tail: "filter (\<lambda>e. tag e = ''circle'') (map f xs) = filter (\<lambda>e. tag e = ''circle'') xs"
    by (rule Cons.IH) (simp add: Cons.prems)
  show ?case
  proof (cases "tag x = ''circle''")
    case True
    then have "f x = x" by (simp add: Cons.prems)
    with True show ?thesis by (simp add: tail)
  next
    case False
    then show ?thesis by (simp add: tail assms(2))
  qed
qed

lemma only_marker:
  assumes "marker st = [m]" and "e \<in> set (svg st)" and "tag e = ''circle''"
  shows "e = m"
proof -
  from assms(2,3) have "e \<in> set (marker st)"
    by (simp add: marker_alt)
  with assms(1) show ?thesis by simp
qed

lemma marker_rotateProjection:
  assumes "marker st = [satellite p c]"
  shows "marker (rotateProjection a b st) = [satellite p c]"
proof -
  let ?q = "(projection st)\<lparr>p_rotate := [js_neg b, js_neg a]\<rparr>"
  let ?f = "\<lambda>e. if matches projected_layers e then attr_d ?q e else e"
  have "filter (\<lambda>e. tag e = ''circle'') (map ?f (svg st)) =
          filter (\<lambda>e. tag e = ''circle'') (svg st)"
  proof (rule circles_map)
    fix e
    assume "e \<in> set (svg st)" and "tag e = ''circle''"
    then have "e = satellite p c" by (rule only_marker [OF assms])
    then show "?f e = e" by (simp add: satellite_no_layer)
  next
    fix e
    show "tag (?f e) = tag e" by (simp add: tag_attr_d)
  qed
  then show ?thesis
    using assms by (simp add: marker_alt rotateProjection_def Let_def cong: if_cong)
qed

lemma marker_plotPoints:
  assumes "marker st = [satellite p c]"
  shows "marker (plotPoints a b st) = [satellite p c]"
proof -
  let ?f = "\<lambda>e. if matches [Class ''trajectory''] e
                 then attr_d (projection st) (e\<lparr>datum := Some (LineString (trajectory st))\<rparr>)
                 else e"
  have "filter (\<lambda>e. tag e = ''circle'') (map ?f (svg st)) =
          filter (\<lambda>e. tag e = ''circle'') (svg st)"
  proof (rule circles_map)
    fix e
    assume "e \<in> set (svg st)" and "tag e = ''circle''"
    then have "e = satellite p c" by (rule only_marker [OF assms])
    then show "?f e = e" by (simp add: satellite_no_layer)
  next
    fix e
    show "tag (?f e) = tag e" by (simp add: tag_attr_d)
  qed
  then show ?thesis
    using assms by (simp add: marker_alt plotPoints_def)
qed

lemma marker_cong: "svg st' = svg st \<Longrightarrow> marker st' = marker st"
  by (simp add: marker_def)

lemma success_redraw:
  "svg (getStatus_success P data st) =
     svg (plotPoints (parseFloat P (d_lat data)) (parseFloat P (d_lon data))
           (rotateProjection (parseFloat P (d_lat data)) (parseFloat P (d_lon data))
              (addTrajectory (parseFloat P (d_lat data)) (parseFloat P (d_lon data)) st)))"
  by (simp add: handler_defs cong: if_cong)

lemma marker_success:
  assumes "marker st = [satellite p c]"
  shows "marker (getStatus_success P data st) = [satellite p c]"
proof -
  let ?a = "parseFloat P (d_lat data)" and ?b = "parseFloat P (d_lon data)"
  have "marker (addTrajectory ?a ?b st) = [satellite p c]"
    using assms by (simp add: marker_def addTrajectory_def)
  then have "marker (plotPoints ?a ?b (rotateProjection ?a ?b (addTrajectory ?a ?b st))) =
               [satellite p c]"
    by (intro marker_plotPoints marker_rotateProjection)
  then show ?thesis
    by (simp add: marker_def success_redraw)
qed

lemma marker_insert_before:
  assumes "tag e \<noteq> ''circle''"
  shows "filter (\<lambda>e. tag e = ''circle'') (insert_before sels e es) =
           filter (\<lambda>e. tag e = ''circle'') es"
proof -
  let ?before = "takeWhile (\<lambda>x. \<not> matches sels x) es"
  let ?after = "dropWhile (\<lambda>x. \<not> matches sels x) es"
  have "filter (\<lambda>e. tag e = ''circle'') (insert_before sels e es) =
          filter (\<lambda>e. tag e = ''circle'') ?before @ filter (\<lambda>e. tag e = ''circle'') ?after"
    using assms by (simp add: insert_before_def)
  also have "\<dots> = filter (\<lambda>e. tag e = ''circle'') (?before @ ?after)"
    by (simp only: filter_append)
  also have "\<dots> = filter (\<lambda>e. tag e = ''circle'') es"
    by (simp only: takeWhile_dropWhile_id)
  finally show ?thesis .
qed

lemma new_tags:
  "tag (setAttribute k v e) = tag e"
  "tag (e\<lparr>datum := g\<rparr>) = tag e"
  "tag (new_element t) = t"
  by (simp_all add: setAttribute_def new_element_def)

lemma marker_world_loaded: "marker (world_loaded st) = marker st"
  by (simp add: marker_alt world_loaded_def Let_def marker_insert_before tag_attr_d new_tags)

lemma svg_fail: "svg (getStatus_fail st) = svg st"
  by (simp add: getStatus_fail_def setTimeout_getStatus_def appendLog_eq Let_def)

lemma svg_requests:
  "svg (getStatus st) = svg st"
  "svg (startcomputing_click st) = svg st"
  "svg (startcomputing_success st) = svg st"
  "svg (stopcomputing_click st) = svg st"
  "svg (stopcomputing_success st) = svg st"
  "svg (starttracking_click st) = svg st"
  "svg (stoptracking_click st) = svg st"
  by (simp_all add: getStatus_def startcomputing_click_def startcomputing_success_def
        stopcomputing_click_def stopcomputing_success_def starttracking_click_def
        stoptracking_click_def Let_def)

lemma marker_step:
  assumes "marker st = [satellite p c]"
  shows "marker (step P st ev) = [satellite p c]"
proof (cases ev)
  case (StatusSuccess data)
  then show ?thesis using assms by (simp add: marker_success)
next
  case WorldLoaded
  then show ?thesis using assms by (simp add: marker_world_loaded)
qed (use assms in \<open>simp_all add: marker_def svg_fail svg_requests\<close>)

lemma marker_run:
  "marker st = [satellite p c] \<Longrightarrow> marker (run P st evs) = [satellite p c]"
proof (induction evs arbitrary: st)
  case Nil
  then show ?case by (simp add: run_Nil)
next
  case (Cons ev evs)
  from Cons.prems have "marker (step P st ev) = [satellite p c]" by (rule marker_step)
  then have "marker (run P (step P st ev) evs) = [satellite p c]" by (rule Cons.IH)
  then show ?case by (simp add: run_Cons)
qed

lemma drawMap_frame:
  "projection (drawMap st) = projection st"
  "lon (drawMap st) = lon st"
  "lat (drawMap st) = lat st"
  by (simp_all add: drawMap_def Let_def)

lemma marker_drawMap: "marker (drawMap st) = marker st"
  by (simp add: marker_alt drawMap_def Let_def tag_attr_d new_tags)

lemma setVariables_start:
  "svg (setVariables P pg) = []"
  "lon (setVariables P pg) = Fin 0"
  "lat (setVariables P pg) = Fin 0"
  by (simp_all add: setVariables_def Let_def)

lemma marker_drawSat:
  "marker st = [] \<Longrightarrow> marker (drawSat st) = [satellite (projection st) (lon st, lat st)]"
  by (simp add: marker_def drawSat_def) (simp add: matches_circle satellite_no_layer)

lemma marker_ready:
  "marker (ready P pg) = [satellite (projection (setVariables P pg)) (Fin 0, Fin 0)]"
proof -
  have "marker (drawMap (setVariables P pg)) = []"
    by (simp add: marker_drawMap) (simp add: marker_def setVariables_start)
  then have "marker (drawSat (drawMap (setVariables P pg))) =
               [satellite (projection (setVariables P pg)) (Fin 0, Fin 0)]"
    by (simp add: marker_drawSat drawMap_frame setVariables_start)
  then show ?thesis
    by (simp add: ready_def setClickListeners_def marker_def svg_requests)
qed

lemma position_rotateProjection:
  "map position_attrs (svg (rotateProjection a b st)) = map position_attrs (svg st)"
  by (simp add: rotateProjection_def Let_def position_attr_d cong: map_cong)

lemma position_plotPoints:
  "map position_attrs (svg (plotPoints a b st)) = map position_attrs (svg st)"
  by (simp add: plotPoints_def position_attr_d position_datum cong: map_cong)

lemma position_success:
  "map position_attrs (svg (getStatus_success P data st)) = map position_attrs (svg st)"
  by (simp add: success_redraw position_plotPoints position_rotateProjection addTrajectory_def)

text \<open>
  C7. When the document is ready the drawing holds exactly one circle, the satellite
  marker, whose \<open>cx\<close> and \<open>cy\<close> are the projection, as set up at startup, of the initial
  coordinates (0, 0). Whatever happens afterwards (status responses, failures, timers,
  clicks, command responses, the world file loading), the circles of the drawing are that
  one element, unchanged. Rotating the projection, redrawing the trajectory and both
  poll callbacks leave the position attributes of every element as they were, in every
  state.
\<close>

theorem marker_never_moves:
  "marker (ready P pg) = [satellite (projection (setVariables P pg)) (Fin 0, Fin 0)]
   \<and> position_attrs (satellite (projection (setVariables P pg)) (Fin 0, Fin 0)) =
       (Some (ProjX (projection (setVariables P pg)) (Fin 0, Fin 0)),
        Some (ProjY (projection (setVariables P pg)) (Fin 0, Fin 0)))
   \<and> marker (run P (ready P pg) evs) = marker (ready P pg)
   \<and> map position_attrs (svg (rotateProjection a b st)) = map position_attrs (svg st)
   \<and> map position_attrs (svg (plotPoints a b st)) = map position_attrs (svg st)
   \<and> map position_attrs (svg (getStatus_success P data st)) = map position_attrs (svg st)
   \<and> map position_attrs (svg (getStatus_fail st)) = map position_attrs (svg st)"
  by (simp add: marker_ready marker_run satellite_position position_rotateProjection
        position_plotPoints position_success svg_fail)

lemma setVariables_rotate: "p_rotate (projection (setVariables P pg)) = [Fin 0, Fin 0, Fin 0]"
  by (simp add: setVariables_def Let_def)

theorem marker_never_moves_witness:
  "marker (run exact (ready exact example_page)
      [WorldLoaded, StatusSuccess example_response, StatusFail, ClickStopComputing,
       StopComputingSuccess, TimerFired, StatusSuccess example_response]) =
     [satellite (projection (setVariables exact example_page)) (Fin 0, Fin 0)]
   \<and> p_rotate (projection (setVariables exact example_page)) = [Fin 0, Fin 0, Fin 0]
   \<and> p_rotate (projection (run exact (ready exact example_page)
        [WorldLoaded, StatusSuccess example_response])) = [Fin (- 20), Fin (- 10)]"
  using marker_never_moves [of exact example_page
          "[WorldLoaded, StatusSuccess example_response, StatusFail, ClickStopComputing,
            StopComputingSuccess, TimerFired, StatusSuccess example_response]"]
  by (simp add: setVariables_rotate run_Cons run_Nil success_rotate parseFloat_def js_neg_def
        example_response_fields)

section \<open>Responses of any shape\<close>

lemma converts_scalar:
  "converts P None"
  "converts P (Some JNull)"
  "converts P (Some (JBool b))"
  "converts P (Some (JNum x))"
  "converts P (Some (JStr s))"
  by (simp_all add: converts_def js_string_def)

lemma converts_string: "converts P v \<Longrightarrow> \<exists>s. js_string P v = Inr s"
  by (cases "js_string P v") (simp_all add: converts_def)

lemma converts_parse:
  assumes "converts P v"
  shows "\<exists>x. parseFloat_js P v = Inr x"
proof -
  from assms obtain s where "js_string P v = Inr s"
    using converts_string by blast
  then show ?thesis
    by (auto simp add: parseFloat_js_def split: option.split json.split)
qed

lemma converts_number:
  assumes "converts P v"
  shows "\<exists>n. to_number P v = Inr n"
proof -
  from assms obtain s where s: "js_string P v = Inr s"
    using converts_string by blast
  show ?thesis
  proof (cases v)
    case None
    then show ?thesis by (simp add: to_number_def)
  next
    case (Some j)
    with s have "to_string P j = Inr s" by (simp add: js_string_def)
    with Some show ?thesis
      by (cases j) (simp_all add: to_number_def)
  qed
qed

lemma prepend_each_converts:
  "list_all (converts P) vs \<Longrightarrow>
     prepend_each P vs st =
       (st\<lparr>log_panel :=
             rev (map (\<lambda>v. ''<p>'' @ projr (js_string P v) @ ''</p>'') vs) @ log_panel st\<rparr>,
        Returned)"
proof (induction vs arbitrary: st)
  case Nil
  show ?case by simp
next
  case (Cons v vs)
  from Cons.prems obtain s where s: "js_string P v = Inr s"
    using converts_string by auto
  from Cons.prems have "list_all (converts P) vs" by simp
  then show ?case by (simp add: s Cons.IH)
qed

lemma prepend_each_strings:
  "prepend_each P (map (\<lambda>l. Some (JStr l)) ls) st = (appendLog ls st, Returned)"
  by (induction ls arbitrary: st) (simp_all add: js_string_def)

lemma appendLog_js_strings:
  "appendLog_js P (Some (JArr (map JStr ls))) st = (appendLog ls st, Returned)"
  by (simp add: appendLog_js_def o_def prepend_each_strings)

lemma appendLog_js_ok:
  assumes "log_ok P l"
  shows "\<exists>es. \<forall>st. appendLog_js P l st = (st\<lparr>log_panel := es @ log_panel st\<rparr>, Returned)"
proof (cases l)
  case None
  with assms show ?thesis by (simp add: log_ok_def)
next
  case (Some j)
  show ?thesis
  proof (cases j)
    case JNull
    with Some assms show ?thesis by (simp add: log_ok_def)
  next
    case (JBool b)
    with Some have "\<forall>st. appendLog_js P l st = (st\<lparr>log_panel := [] @ log_panel st\<rparr>, Returned)"
      by (simp add: appendLog_js_def)
    then show ?thesis ..
  next
    case (JNum x)
    with Some have "\<forall>st. appendLog_js P l st = (st\<lparr>log_panel := [] @ log_panel st\<rparr>, Returned)"
      by (simp add: appendLog_js_def)
    then show ?thesis ..
  next
    case (JStr s)
    have "list_all (converts P) (map (\<lambda>c. Some (JStr [c])) s)"
      by (simp add: list_all_iff converts_scalar)
    with Some JStr show ?thesis
      by (auto simp add: appendLog_js_def prepend_each_converts)
  next
    case (JArr vs)
    with Some assms have "list_all (converts P) (map Some vs)"
      by (simp add: log_ok_def list_all_iff)
    with Some JArr show ?thesis
      by (auto simp add: appendLog_js_def prepend_each_converts)
  next
    case (JObj kvs)
    with Some assms show ?thesis by (simp add: log_ok_def)
  qed
qed

lemma redraw_position:
  "lon (rotateProjection a b st) = lon st"
  "lat (rotateProjection a b st) = lat st"
  "lon (plotPoints a b st) = lon st"
  "lat (plotPoints a b st) = lat st"
  by (simp_all add: rotateProjection_def plotPoints_def Let_def)

lemmas statement_defs = getStatus_callback_def store_def plain_def then_e_def get_prop_def

lemma callback_object:
  assumes "parseFloat_js P (own_property kvs ''lon'') = Inr x1"
    and "parseFloat_js P (own_property kvs ''lat'') = Inr x2"
    and "parseFloat_js P (own_property kvs ''az'') = Inr x3"
    and "parseFloat_js P (own_property kvs ''alt'') = Inr x4"
    and "js_string P (own_property kvs ''time'') = Inr t"
    and "to_number P (own_property kvs ''interval'') = Inr n"
    and "\<forall>st. appendLog_js P (own_property kvs ''log'') st =
           (st\<lparr>log_panel := es @ log_panel st\<rparr>, Returned)"
  shows "getStatus_callback P (Some (JObj kvs)) st =
     (setTimeout_getStatus (js_times P (Fin 1000) n)
        (plotPoints x2 x1
           (rotateProjection x2 x1
              (st\<lparr>lon := x1, lat := x2, az := x3, alt := x4,
                   time := own_property kvs ''time'',
                   trajectory := trajectory st @ [(x1, x2)],
                   log_panel := es @ log_panel st,
                   lonlabel := toFixed3 P x1, latlabel := toFixed3 P x2,
                   azilabel := toFixed3 P x3, altlabel := toFixed3 P x4,
                   timelabel := t @ '' UTC''\<rparr>))),
      Returned)"
  by (simp add: statement_defs assms addTrajectory_def redraw_position)


lemma callback_fields:
  assumes "parseFloat_js P (own_property kvs ''lon'') = Inr x1"
    and "parseFloat_js P (own_property kvs ''lat'') = Inr x2"
    and "parseFloat_js P (own_property kvs ''az'') = Inr x3"
    and "parseFloat_js P (own_property kvs ''alt'') = Inr x4"
    and "js_string P (own_property kvs ''time'') = Inr t"
    and "to_number P (own_property kvs ''interval'') = Inr n"
    and "\<forall>st. appendLog_js P (own_property kvs ''log'') st =
           (st\<lparr>log_panel := es @ log_panel st\<rparr>, Returned)"
  shows "snd (getStatus_callback P (Some (JObj kvs)) st) = Returned"
    and "lon (fst (getStatus_callback P (Some (JObj kvs)) st)) = x1"
    and "lat (fst (getStatus_callback P (Some (JObj kvs)) st)) = x2"
    and "az (fst (getStatus_callback P (Some (JObj kvs)) st)) = x3"
    and "alt (fst (getStatus_callback P (Some (JObj kvs)) st)) = x4"
    and "labels (fst (getStatus_callback P (Some (JObj kvs)) st)) =
           (toFixed3 P x1, toFixed3 P x2, toFixed3 P x3, toFixed3 P x4, t @ '' UTC'')"
    and "trajectory (fst (getStatus_callback P (Some (JObj kvs)) st)) =
           trajectory st @ [(x1, x2)]"
    and "timeouts (fst (getStatus_callback P (Some (JObj kvs)) st)) =
           timeouts st @ [js_times P (Fin 1000) n]"
    and "log_panel (fst (getStatus_callback P (Some (JObj kvs)) st)) = es @ log_panel st"
  by (simp_all add: callback_object [OF assms] labels_def setTimeout_getStatus_def
        plotPoints_def rotateProjection_def Let_def)

lemma parseFloat_js_field: "parseFloat_js P (Some (json_of_field f)) = Inr (parseFloat P f)"
  by (cases f) (simp_all add: parseFloat_js_def json_of_field_def parseFloat_def js_string_def)

text \<open>On a response typed as in section 6 the callback is \<open>getStatus_success\<close> and returns.\<close>

lemma callback_typed:
  "getStatus_callback P (Some (json_of_response data)) st =
     (getStatus_success P data st, Returned)"
proof -
  have "getStatus_callback P (Some (json_of_response data)) st =
     (setTimeout_getStatus (js_times P (Fin 1000) (d_interval data))
        (plotPoints (parseFloat P (d_lat data)) (parseFloat P (d_lon data))
           (rotateProjection (parseFloat P (d_lat data)) (parseFloat P (d_lon data))
              (st\<lparr>lon := parseFloat P (d_lon data), lat := parseFloat P (d_lat data),
                   az := parseFloat P (d_az data), alt := parseFloat P (d_alt data),
                   time := own_property
                     [(''lon'', json_of_field (d_lon data)), (''lat'', json_of_field (d_lat data)),
                      (''az'', json_of_field (d_az data)), (''alt'', json_of_field (d_alt data)),
                      (''time'', JStr (d_time data)), (''interval'', JNum (d_interval data)),
                      (''log'', JArr (map JStr (d_log data)))] ''time'',
                   trajectory := trajectory st
                     @ [(parseFloat P (d_lon data), parseFloat P (d_lat data))],
                   log_panel := rev (map (\<lambda>l. ''<p>'' @ l @ ''</p>'') (d_log data))
                     @ log_panel st,
                   lonlabel := toFixed3 P (parseFloat P (d_lon data)),
                   latlabel := toFixed3 P (parseFloat P (d_lat data)),
                   azilabel := toFixed3 P (parseFloat P (d_az data)),
                   altlabel := toFixed3 P (parseFloat P (d_alt data)),
                   timelabel := d_time data @ '' UTC''\<rparr>))),
      Returned)"
    unfolding json_of_response_def
    by (rule callback_object)
       (simp_all add: own_property_def parseFloat_js_field js_string_def to_number_def
          appendLog_js_strings appendLog_eq)
  then show ?thesis
    by (simp add: handler_defs own_property_def cong: if_cong)
qed


lemma ready_labels: "labels (ready P pg) = label_texts0 pg"
  by (simp add: labels_def ready_def getStatus_def setClickListeners_def drawSat_def
        drawMap_def setVariables_def Let_def)

lemma bad_azimuth_converts:
  "parseFloat_js exact (own_property bad_azimuth_members ''lon'') = Inr (Fin 20)"
  "parseFloat_js exact (own_property bad_azimuth_members ''lat'') = Inr (Fin 10)"
  "parseFloat_js exact (own_property bad_azimuth_members ''az'') = Inr NaN"
  "parseFloat_js exact (own_property bad_azimuth_members ''alt'') = Inr (Fin 408)"
  "js_string exact (own_property bad_azimuth_members ''time'') = Inr ''12:00:05''"
  "to_number exact (own_property bad_azimuth_members ''interval'') = Inr (Fin 5)"
  "\<forall>st. appendLog_js exact (own_property bad_azimuth_members ''log'') st =
     (st\<lparr>log_panel := [] @ log_panel st\<rparr>, Returned)"
  by (simp_all add: bad_azimuth_members_def own_property_def parseFloat_js_def js_string_def
        to_number_def appendLog_js_def parse_defs)

lemma no_log_throws:
  "getStatus_callback exact (Some (JObj no_log_members)) st =
     (st\<lparr>lon := NaN, lat := Fin 10, az := Fin 1, alt := Fin 408,
          time := Some (JStr ''12:00:05''), trajectory := trajectory st @ [(NaN, Fin 10)]\<rparr>,
      Threw)"
  by (simp add: statement_defs no_log_members_def own_property_def parseFloat_js_def
        js_string_def parse_defs addTrajectory_def appendLog_js_def)

lemma toString_throws:
  "getStatus_callback exact (Some (JObj toString_members)) st = (st, Threw)"
  by (simp add: statement_defs toString_members_def own_property_def parseFloat_js_def
        js_string_def)

text \<open>
  C10, as stated, fails in two ways. When the azimuth alone does not parse, the callback
  completes and the point appended holds the longitude and latitude received: no point
  of the trajectory contains NaN. When the response has no \<open>log\<close> and its longitude does
  not parse, the callback appends its point and then raises a TypeError at
  \<open>log.length\<close>: no label is written and no timeout is set. An object with a property
  \<open>toString\<close> in place of the longitude raises before anything is stored.
\<close>

theorem unparseable_fields_counterexample:
  "parseFloat_js exact (own_property bad_azimuth_members ''az'') = Inr NaN
   \<and> snd (getStatus_settled exact (Delivered (Some (JObj bad_azimuth_members)))
          (ready exact example_page)) = Returned
   \<and> trajectory (fst (getStatus_settled exact (Delivered (Some (JObj bad_azimuth_members)))
          (ready exact example_page))) = [(Fin 20, Fin 10)]
   \<and> \<not> list_ex has_nan
         (trajectory (fst (getStatus_settled exact (Delivered (Some (JObj bad_azimuth_members)))
            (ready exact example_page))))
   \<and> parseFloat_js exact (own_property no_log_members ''lon'') = Inr NaN
   \<and> snd (getStatus_settled exact (Delivered (Some (JObj no_log_members)))
          (ready exact example_page)) = Threw
   \<and> trajectory (fst (getStatus_settled exact (Delivered (Some (JObj no_log_members)))
          (ready exact example_page))) = [(NaN, Fin 10)]
   \<and> labels (fst (getStatus_settled exact (Delivered (Some (JObj no_log_members)))
          (ready exact example_page))) = labels (ready exact example_page)
   \<and> timeouts (fst (getStatus_settled exact (Delivered (Some (JObj no_log_members)))
          (ready exact example_page))) = []
   \<and> getStatus_settled exact (Delivered (Some (JObj toString_members)))
          (ready exact example_page) = (ready exact example_page, Threw)"
  by (simp add: getStatus_settled_def callback_fields [OF bad_azimuth_converts]
        bad_azimuth_converts no_log_throws toString_throws ready_fields has_nan_def labels_def)
     (simp add: no_log_members_def own_property_def parseFloat_js_def js_string_def parse_defs)

text \<open>
  C10, amended. Take any response delivered to the success callback that is a JSON
  object whose \<open>lon\<close>, \<open>lat\<close>, \<open>az\<close>, \<open>alt\<close>, \<open>time\<close> and \<open>interval\<close> convert to strings without
  a TypeError (as every value does that is absent, null, a boolean, a number or a
  string) and whose \<open>log\<close> is an array of such values, a string, a number or a boolean.
  Whether or not its position fields parse, the callback completes along the success
  path, the failure callback being run only for a request that failed (a network error
  or a body that is not JSON). Each position global is what \<open>parseFloat\<close> makes of its
  field, so it is NaN when the field does not parse, and its label then reads NaN. The
  point appended to the trajectory is the parsed longitude and latitude, so it contains
  NaN exactly when the longitude or the latitude does not parse. One timeout is set for
  the next poll, from the interval of the response.
\<close>

theorem unparseable_fields:
  assumes "converts P (own_property kvs ''lon'')"
    and "converts P (own_property kvs ''lat'')"
    and "converts P (own_property kvs ''az'')"
    and "converts P (own_property kvs ''alt'')"
    and "converts P (own_property kvs ''time'')"
    and "converts P (own_property kvs ''interval'')"
    and "log_ok P (own_property kvs ''log'')"
    and "r = getStatus_settled P (Delivered (Some (JObj kvs))) st"
  shows "snd r = Returned
   \<and> r = getStatus_callback P (Some (JObj kvs)) st
   \<and> getStatus_settled P Failed st = (getStatus_fail st, Returned)
   \<and> Inr (lon (fst r)) = parseFloat_js P (own_property kvs ''lon'')
   \<and> Inr (lat (fst r)) = parseFloat_js P (own_property kvs ''lat'')
   \<and> Inr (az (fst r)) = parseFloat_js P (own_property kvs ''az'')
   \<and> Inr (alt (fst r)) = parseFloat_js P (own_property kvs ''alt'')
   \<and> lonlabel (fst r) = toFixed3 P (lon (fst r))
   \<and> latlabel (fst r) = toFixed3 P (lat (fst r))
   \<and> azilabel (fst r) = toFixed3 P (az (fst r))
   \<and> altlabel (fst r) = toFixed3 P (alt (fst r))
   \<and> (lon (fst r) = NaN \<longrightarrow> lonlabel (fst r) = ''NaN'')
   \<and> (lat (fst r) = NaN \<longrightarrow> latlabel (fst r) = ''NaN'')
   \<and> (az (fst r) = NaN \<longrightarrow> azilabel (fst r) = ''NaN'')
   \<and> (alt (fst r) = NaN \<longrightarrow> altlabel (fst r) = ''NaN'')
   \<and> trajectory (fst r) = trajectory st @ [(lon (fst r), lat (fst r))]
   \<and> has_nan (last (trajectory (fst r))) = (lon (fst r) = NaN \<or> lat (fst r) = NaN)
   \<and> (\<exists>n. to_number P (own_property kvs ''interval'') = Inr n
          \<and> timeouts (fst r) = timeouts st @ [js_times P (Fin 1000) n])"
proof -
  from assms(1) obtain x1 where x1: "parseFloat_js P (own_property kvs ''lon'') = Inr x1"
    using converts_parse by blast
  from assms(2) obtain x2 where x2: "parseFloat_js P (own_property kvs ''lat'') = Inr x2"
    using converts_parse by blast
  from assms(3) obtain x3 where x3: "parseFloat_js P (own_property kvs ''az'') = Inr x3"
    using converts_parse by blast
  from assms(4) obtain x4 where x4: "parseFloat_js P (own_property kvs ''alt'') = Inr x4"
    using converts_parse by blast
  from assms(5) obtain t where t: "js_string P (own_property kvs ''time'') = Inr t"
    using converts_string by blast
  from assms(6) obtain n where n: "to_number P (own_property kvs ''interval'') = Inr n"
    using converts_number by blast
  from assms(7) obtain es where
    es: "\<forall>st. appendLog_js P (own_property kvs ''log'') st =
           (st\<lparr>log_panel := es @ log_panel st\<rparr>, Returned)"
    using appendLog_js_ok by blast
  note fields = callback_fields [OF x1 x2 x3 x4 t n es, of st]
  have r: "r = getStatus_callback P (Some (JObj kvs)) st"
    by (simp add: assms(8) getStatus_settled_def)
  have labels: "lonlabel (fst r) = toFixed3 P x1" "latlabel (fst r) = toFixed3 P x2"
    "azilabel (fst r) = toFixed3 P x3" "altlabel (fst r) = toFixed3 P x4"
    using fields(6) by (simp_all add: r labels_def)
  have position: "lon (fst r) = x1" "lat (fst r) = x2" "az (fst r) = x3" "alt (fst r) = x4"
    by (simp_all add: r fields)
  have "snd r = Returned"
    by (simp add: r fields)
  moreover have "getStatus_settled P Failed st = (getStatus_fail st, Returned)"
    by (simp add: getStatus_settled_def)
  moreover have "trajectory (fst r) = trajectory st @ [(x1, x2)]"
    by (simp add: r fields)
  moreover have "timeouts (fst r) = timeouts st @ [js_times P (Fin 1000) n]"
    by (simp add: r fields)
  ultimately show ?thesis
    by (simp add: r [symmetric] x1 x2 x3 x4 n labels position toFixed3_NaN has_nan_def)
qed

lemma garbled_converts:
  "converts exact (own_property garbled_members ''lon'')"
  "converts exact (own_property garbled_members ''lat'')"
  "converts exact (own_property garbled_members ''az'')"
  "converts exact (own_property garbled_members ''alt'')"
  "converts exact (own_property garbled_members ''time'')"
  "converts exact (own_property garbled_members ''interval'')"
  "log_ok exact (own_property garbled_members ''log'')"
  by (simp_all add: garbled_members_def own_property_def converts_def log_ok_def js_string_def)

lemma garbled_parse:
  "parseFloat_js exact (own_property garbled_members ''lon'') = Inr NaN"
  "parseFloat_js exact (own_property garbled_members ''lat'') = Inr NaN"
  "parseFloat_js exact (own_property garbled_members ''az'') = Inr NaN"
  "parseFloat_js exact (own_property garbled_members ''alt'') = Inr NaN"
  "to_number exact (own_property garbled_members ''interval'') = Inr (Fin 5)"
  by (simp_all add: garbled_members_def own_property_def parseFloat_js_def js_string_def
        to_number_def parse_defs)

theorem unparseable_fields_witness:
  "converts exact (own_property garbled_members ''lon'')
   \<and> converts exact (own_property garbled_members ''lat'')
   \<and> converts exact (own_property garbled_members ''az'')
   \<and> converts exact (own_property garbled_members ''alt'')
   \<and> converts exact (own_property garbled_members ''time'')
   \<and> converts exact (own_property garbled_members ''interval'')
   \<and> log_ok exact (own_property garbled_members ''log'')
   \<and> snd (getStatus_settled exact (Delivered (Some (JObj garbled_members)))
          (ready exact example_page)) = Returned
   \<and> lon (fst (getStatus_settled exact (Delivered (Some (JObj garbled_members)))
          (ready exact example_page))) = NaN
   \<and> lonlabel (fst (getStatus_settled exact (Delivered (Some (JObj garbled_members)))
          (ready exact example_page))) = ''NaN''
   \<and> altlabel (fst (getStatus_settled exact (Delivered (Some (JObj garbled_members)))
          (ready exact example_page))) = ''NaN''
   \<and> trajectory (fst (getStatus_settled exact (Delivered (Some (JObj garbled_members)))
          (ready exact example_page))) = [(NaN, NaN)]
   \<and> timeouts (fst (getStatus_settled exact (Delivered (Some (JObj garbled_members)))
          (ready exact example_page))) = [Fin 5000]"
  using unparseable_fields [OF garbled_converts refl, of "ready exact example_page"]
  by (simp add: garbled_converts garbled_parse ready_fields js_times_def exact_rnd
        getStatus_settled_def toFixed3_NaN)

end
